theory Spec2Isabelle
  imports Complex_Main "HOL-Library.Sublist"
begin

section \<open>Python strings\<close>

text \<open>
  A Python \<open>str\<close> is modelled as a HOL \<open>string\<close> holding the UTF-8 bytes of the text, so
  that \<open>len(s.encode("utf-8"))\<close> is \<open>length s\<close>. The helpers below are the string
  methods the repository calls, on that representation.
\<close>

definition lower_char :: "char \<Rightarrow> char" where
  "lower_char c =
     (case map_of (zip ''ABCDEFGHIJKLMNOPQRSTUVWXYZ'' ''abcdefghijklmnopqrstuvwxyz'') c of
        Some d \<Rightarrow> d
      | None \<Rightarrow> c)"

definition lower :: "string \<Rightarrow> string" where
  "lower s = map lower_char s"

text \<open>\<open>needle in hay\<close> for two strings: some suffix of \<open>hay\<close> starts with \<open>needle\<close>.\<close>

fun str_in :: "string \<Rightarrow> string \<Rightarrow> bool" where
  "str_in needle [] = (needle = [])"
| "str_in needle (c # cs) = (prefix needle (c # cs) \<or> str_in needle cs)"

text \<open>
  Whitespace and line boundaries are sets of characters in Python; on UTF-8 bytes each is
  a byte sequence. \<open>match_len table s\<close> is the length of the first sequence of \<open>table\<close>
  that \<open>s\<close> starts with, and 0 when there is none.
\<close>

definition match_len :: "string list \<Rightarrow> string \<Rightarrow> nat" where
  "match_len table s = (case find (\<lambda>w. prefix w s) table of None \<Rightarrow> 0 | Some w \<Rightarrow> length w)"

text \<open>
  The characters \<open>str.split()\<close> and \<open>str.strip()\<close> treat as whitespace: U+0009 to U+000D,
  U+001C to U+0020, U+0085, U+00A0, U+1680, U+2000 to U+200A, U+2028, U+2029, U+202F,
  U+205F and U+3000.
\<close>

definition whitespace :: "string list" where
  "whitespace =
     map (\<lambda>c. [c]) [CHR 0x09, CHR 0x0A, CHR 0x0B, CHR 0x0C, CHR 0x0D,
                     CHR 0x1C, CHR 0x1D, CHR 0x1E, CHR 0x1F, CHR 0x20]
     @ [[CHR 0xC2, CHR 0x85], [CHR 0xC2, CHR 0xA0], [CHR 0xE1, CHR 0x9A, CHR 0x80]]
     @ map (\<lambda>c. [CHR 0xE2, CHR 0x80, c])
         [CHR 0x80, CHR 0x81, CHR 0x82, CHR 0x83, CHR 0x84, CHR 0x85, CHR 0x86, CHR 0x87,
          CHR 0x88, CHR 0x89, CHR 0x8A, CHR 0xA8, CHR 0xA9, CHR 0xAF]
     @ [[CHR 0xE2, CHR 0x81, CHR 0x9F], [CHR 0xE3, CHR 0x80, CHR 0x80]]"

text \<open>\<open>s.lstrip()\<close>, \<open>s.rstrip()\<close> and \<open>s.strip()\<close>.\<close>

function lstrip_table :: "string list \<Rightarrow> string \<Rightarrow> string" where
  "lstrip_table table s =
     (if s \<noteq> [] \<and> 0 < match_len table s then lstrip_table table (drop (match_len table s) s)
      else s)"
  by pat_completeness auto
termination
  by (relation "measure (\<lambda>(table, s). length s)") auto

declare lstrip_table.simps [simp del]

definition lstrip :: "string \<Rightarrow> string" where
  "lstrip s = lstrip_table whitespace s"

definition rstrip :: "string \<Rightarrow> string" where
  "rstrip s = rev (lstrip_table (map rev whitespace) (rev s))"

definition strip :: "string \<Rightarrow> string" where
  "strip s = rstrip (lstrip s)"

text \<open>
  \<open>s.split()\<close>: the maximal runs of non-whitespace, in order. \<open>acc\<close> holds the current
  run, reversed.
\<close>

function split_ws :: "string \<Rightarrow> string \<Rightarrow> string list" where
  "split_ws acc s =
     (if s = [] then (if acc = [] then [] else [rev acc])
      else if 0 < match_len whitespace s
        then (if acc = [] then [] else [rev acc]) @ split_ws [] (drop (match_len whitespace s) s)
      else split_ws (hd s # acc) (tl s))"
  by pat_completeness auto
termination
  by (relation "measure (\<lambda>(acc, s). length s)") auto

declare split_ws.simps [simp del]

definition split :: "string \<Rightarrow> string list" where
  "split s = split_ws [] s"

text \<open>\<open>s.split(sep)\<close> for a separator of one character: never an empty list.\<close>

fun split_on :: "char \<Rightarrow> string \<Rightarrow> string list" where
  "split_on sep [] = [[]]"
| "split_on sep (c # cs) =
     (if c = sep then [] # split_on sep cs
      else (case split_on sep cs of [] \<Rightarrow> [[c]] | w # ws \<Rightarrow> (c # w) # ws))"

text \<open>Exceptions are values: the class and \<open>str(e)\<close>.\<close>

datatype py_exc = Exc (exc_class: string) (exc_str: string)

definition backslash :: char where
  "backslash = CHR 0x5C"

text \<open>\<open>str(n)\<close> for an integer: its decimal digits.\<close>

definition digit_char :: "nat \<Rightarrow> char" where
  "digit_char d = ''0123456789'' ! (d mod 10)"

function str_nat :: "nat \<Rightarrow> string" where
  "str_nat n = (if n < 10 then [digit_char n] else str_nat (n div 10) @ [digit_char (n mod 10)])"
  by pat_completeness auto
termination
  by (relation "measure id") auto

declare str_nat.simps [simp del]

definition str_int :: "int \<Rightarrow> string" where
  "str_int i = (if i < 0 then ''-'' @ str_nat (nat (- i)) else str_nat (nat i))"




section \<open>Schemas (llm/schemas.py, agent/executor.py)\<close>

datatype ActionType =
  FS_WRITE | FS_EDIT | FS_INSERT_LINES | FS_DELETE | SHELL_RUN | DEPS_INSTALL | GIT_CHECKOUT

text \<open>\<open>ActionType.value\<close>: the string of each member of the enum.\<close>

fun type_value :: "ActionType \<Rightarrow> string" where
  "type_value FS_WRITE = ''fs_write''"
| "type_value FS_EDIT = ''fs_edit''"
| "type_value FS_INSERT_LINES = ''fs_insert_lines''"
| "type_value FS_DELETE = ''fs_delete''"
| "type_value SHELL_RUN = ''shell_run''"
| "type_value DEPS_INSTALL = ''deps_install''"
| "type_value GIT_CHECKOUT = ''git_checkout''"

text \<open>
  A Python float is the real number it denotes, or one of the values that denote none:
  negative zero, the infinities and NaN. Comparison is IEEE comparison (negative zero
  equals zero, NaN is below and above nothing); \<open>max\<close> keeps the value it holds unless the
  next one is greater.
\<close>

datatype pyfloat = Finite real | NegZero | PosInf | NegInf | NaN

fun float_val :: "pyfloat \<Rightarrow> real" where
  "float_val (Finite x) = x"
| "float_val f = 0"

fun float_lt :: "pyfloat \<Rightarrow> pyfloat \<Rightarrow> bool" where
  "float_lt NaN b = False"
| "float_lt a NaN = False"
| "float_lt PosInf b = False"
| "float_lt a NegInf = False"
| "float_lt NegInf b = True"
| "float_lt a PosInf = True"
| "float_lt a b = (float_val a < float_val b)"

definition float_gt :: "pyfloat \<Rightarrow> pyfloat \<Rightarrow> bool" where
  "float_gt a b = float_lt b a"

definition float_le :: "pyfloat \<Rightarrow> pyfloat \<Rightarrow> bool" where
  "float_le a b = (a \<noteq> NaN \<and> b \<noteq> NaN \<and> \<not> float_lt b a)"

text \<open>\<open>max(a, b)\<close>, and \<open>max\<close> over the values \<open>first, rest...\<close> of an iterable.\<close>

definition py_max2 :: "pyfloat \<Rightarrow> pyfloat \<Rightarrow> pyfloat" where
  "py_max2 a b = (if float_gt b a then b else a)"



text \<open>
  The values of \<open>args: dict[str, Any]\<close>: what a JSON plan can hold. \<open>truthy\<close> is
  Python's truth test, used by \<open>if path:\<close>.
\<close>

datatype pyval =
  PNone | PBool bool | PInt int | PFloat pyfloat | PStr string
  | PList "pyval list" | PDict "(string \<times> pyval) list"

fun truthy :: "pyval \<Rightarrow> bool" where
  "truthy PNone = False"
| "truthy (PBool b) = b"
| "truthy (PInt i) = (i \<noteq> 0)"
| "truthy (PFloat x) = (x = NaN \<or> x = PosInf \<or> x = NegInf \<or> float_val x \<noteq> 0)"
| "truthy (PStr s) = (s \<noteq> [])"
| "truthy (PList xs) = (xs \<noteq> [])"
| "truthy (PDict kvs) = (kvs \<noteq> [])"

text \<open>\<open>d.get(k)\<close>: the value, or \<open>None\<close> for a missing key.\<close>

definition dict_get :: "(string \<rightharpoonup> pyval) \<Rightarrow> string \<Rightarrow> pyval" where
  "dict_get d k = (case d k of None \<Rightarrow> PNone | Some v \<Rightarrow> v)"

text \<open>\<open>d.get(k, default)\<close>.\<close>

definition dict_get_default :: "(string \<rightharpoonup> pyval) \<Rightarrow> string \<Rightarrow> pyval \<Rightarrow> pyval" where
  "dict_get_default d k dflt = (case d k of None \<Rightarrow> dflt | Some v \<Rightarrow> v)"

record Action =
  type :: ActionType
  rationale :: string
  args :: "string \<rightharpoonup> pyval"
  target_files :: "string list"
  risk_score :: pyfloat


record Plan =
  goal :: string
  steps :: "Action list"
  expected_outcome :: string
  rollback_hint :: "string option"

record ReflectionResult =
  analysis :: string
  fix_plan :: Plan

text \<open>
  \<open>ExecutionResult\<close> (executor.py). The fields \<open>success\<close>, \<open>message\<close> and \<open>diff\<close> occur in
  several classes of the source; each record prefixes them (\<open>er_\<close> here, \<open>ob_\<close> for
  \<open>Observation\<close>, \<open>fo_\<close> for \<open>FileOperation\<close>, \<open>sr_\<close> for \<open>ShellResult\<close>, \<open>ad_\<close> for
  \<open>ApprovalDecision\<close>).
\<close>

record ExecutionResult =
  er_success :: bool
  er_message :: string
  er_diff :: string
  er_data :: pyval

record Observation =
  ob_action_type :: string
  ob_success :: bool
  ob_message :: string
  ob_error_type :: "string option"
  ob_affected_files :: "string list"
  ob_diff :: "string option"
  ob_can_retry :: bool
  ob_context_update :: "(string \<times> pyval) list"

section \<open>Observation classifier (agent/core.py, CodingAgent.observe)\<close>

text \<open>
  \<open>Observation(...)\<close> validates its fields. \<open>affected_files\<close> is declared \<open>list[str]\<close>, and
  an item that is not a \<open>str\<close> makes the constructor raise \<open>ValidationError\<close>; the other
  fields get values of their declared types.
\<close>

fun str_items :: "pyval list \<Rightarrow> string list option" where
  "str_items [] = Some []"
| "str_items (PStr s # vs) = map_option (\<lambda>ss. s # ss) (str_items vs)"
| "str_items (v # vs) = None"

definition observe :: "Action \<Rightarrow> ExecutionResult \<Rightarrow> py_exc + Observation" where
  "observe action result =
     (let error_type =
            (if \<not> er_success result then
               (let message_lower = lower (er_message result) in
                if str_in ''import'' message_lower then Some ''ImportError''
                else if str_in ''syntax'' message_lower then Some ''SyntaxError''
                else if str_in ''not found'' message_lower
                        \<or> str_in ''does not exist'' message_lower
                     then Some ''FileNotFoundError''
                else if str_in ''permission'' message_lower then Some ''PermissionError''
                else Some ''UnknownError'')
             else None);
          affected_files =
            (if prefix ''fs_'' (type_value (type action)) then
               (let path = dict_get (args action) ''path'' in
                if truthy path then [path] else [])
             else []);
          can_retry = (if error_type \<in> set [Some ''PermissionError''] then False else True);
          context_update =
            (if er_success result then
               (if type_value (type action) = ''fs_write''
                  then [(''file_created'', dict_get (args action) ''path'')]
                else if type_value (type action) \<in> set [''fs_edit'', ''fs_insert_lines'']
                  then [(''file_modified'', dict_get (args action) ''path'')]
                else if type_value (type action) = ''fs_delete''
                  then [(''file_deleted'', dict_get (args action) ''path'')]
                else [])
             else [])
      in (case str_items affected_files of
            None \<Rightarrow> Inl (Exc ''ValidationError'' ''1 validation error for Observation'')
          | Some files \<Rightarrow>
              Inr \<lparr> ob_action_type = type_value (type action),
                    ob_success = er_success result,
                    ob_message = er_message result,
                    ob_error_type = error_type,
                    ob_affected_files = files,
                    ob_diff = (if er_success result then Some (er_diff result) else None),
                    ob_can_retry = can_retry,
                    ob_context_update = context_update \<rparr>))"

text \<open>
  The actions whose observation is built: the type is outside the \<open>fs_\<close> family, or the
  \<open>path\<close> argument is missing, falsy or a \<open>str\<close>.
\<close>

definition path_arg_ok :: "Action \<Rightarrow> bool" where
  "path_arg_ok action =
     (\<not> prefix ''fs_'' (type_value (type action))
      \<or> \<not> truthy (dict_get (args action) ''path'')
      \<or> (\<exists>s. dict_get (args action) ''path'' = PStr s))"

section \<open>Shell adapter (tools/shell.py)\<close>

record ShellResult =
  sr_success :: bool
  sr_command :: string
  sr_stdout :: string
  sr_stderr :: string
  sr_exit_code :: int
  sr_message :: string

record ShellTool =
  allowlist :: "string list"
  max_timeout :: int

text \<open>
  What \<open>subprocess.run(command, shell=True, ..., timeout=t)\<close> can do: complete with a
  return code, stdout and stderr; raise \<open>TimeoutExpired\<close>; raise something else. The
  operating system is a function from the command and the timeout to one of these.
\<close>

datatype proc_outcome =
  Completed int string string
  | TimeoutExpired
  | Raised py_exc

type_synonym subprocess = "string \<Rightarrow> int \<Rightarrow> proc_outcome"

text \<open>\<open>re_search p s\<close> stands for the truth of the library call \<open>re.search(p, s)\<close>.\<close>

type_synonym regex_search = "string \<Rightarrow> string \<Rightarrow> bool"

definition shell_dangerous_patterns :: "(string \<times> string) list" where
  "shell_dangerous_patterns =
     [ ([backslash] @ ''brm'' @ [backslash] @ ''s+-rf'' @ [backslash] @ ''s+/'',
          ''Dangerous recursive delete''),
       (''curl.*'' @ [backslash] @ ''|.*bash'', ''Piping curl to bash''),
       (''wget.*'' @ [backslash] @ ''|.*bash'', ''Piping wget to bash''),
       ([backslash] @ ''bsudo'' @ [backslash] @ ''b'', ''Sudo not allowed''),
       (''>'' @ [backslash] @ ''s*/dev/'', ''Writing to /dev/ not allowed'') ]"

text \<open>
  \<open>first_word.split("/")[-1]\<close> of the first whitespace-delimited token of the command.
  \<open>split()[0]\<close> raises \<open>IndexError\<close> on an empty list.
\<close>

definition base_command :: "string \<Rightarrow> py_exc + string" where
  "base_command command =
     (let command_stripped = strip command in
      (case (if command_stripped \<noteq> []
             then (case split command_stripped of
                     [] \<Rightarrow> Inl (Exc ''IndexError'' ''list index out of range'')
                   | w # ws \<Rightarrow> Inr w)
             else Inr [])
       of Inl e \<Rightarrow> Inl e
        | Inr first_word \<Rightarrow> Inr (last (split_on CHR ''/'' first_word))))"

text \<open>\<open>_validate_command\<close>: \<open>Inr None\<close> for a valid command, \<open>Inr (Some message)\<close> otherwise.\<close>

definition validate_command ::
  "regex_search \<Rightarrow> ShellTool \<Rightarrow> string \<Rightarrow> py_exc + string option" where
  "validate_command re_search self command =
     (case base_command command of
        Inl e \<Rightarrow> Inl e
      | Inr base \<Rightarrow>
          if base \<notin> set (allowlist self)
          then Inr (Some (''Command '' @ [CHR 0x27] @ base @ [CHR 0x27] @ '' not in allowlist''))
          else Inr (map_option snd
                      (find (\<lambda>(pattern, reason). re_search pattern command)
                         shell_dangerous_patterns)))"

text \<open>
  \<open>ShellTool.run\<close>. The second component lists the calls of \<open>subprocess.run\<close> it made,
  each with the command and the timeout passed. \<open>if validation_error:\<close> is Python's truth
  test: a message that is not empty.
\<close>

definition run ::
  "regex_search \<Rightarrow> subprocess \<Rightarrow> ShellTool \<Rightarrow> string \<Rightarrow> int option
   \<Rightarrow> py_exc + (ShellResult \<times> (string \<times> int) list)" where
  "run re_search subprocess_run self command timeout =
     (case validate_command re_search self command of
        Inl e \<Rightarrow> Inl e
      | Inr validation_error \<Rightarrow>
          if validation_error \<noteq> None \<and> the validation_error \<noteq> [] then
            Inr (\<lparr> sr_success = False, sr_command = command, sr_stdout = [], sr_stderr = [],
                   sr_exit_code = - 1,
                   sr_message = ''Command rejected: '' @ the validation_error \<rparr>, [])
          else
            (let actual_timeout = (case timeout of Some t \<Rightarrow> t | None \<Rightarrow> max_timeout self) in
             Inr ((case subprocess_run command actual_timeout of
                     Completed returncode out err \<Rightarrow>
                       (let success = (returncode = 0);
                            message = (if success then ''Command executed successfully''
                                       else ''Command failed'')
                        in \<lparr> sr_success = success, sr_command = command, sr_stdout = out,
                             sr_stderr = err, sr_exit_code = returncode,
                             sr_message = message \<rparr>)
                   | TimeoutExpired \<Rightarrow>
                       \<lparr> sr_success = False, sr_command = command, sr_stdout = [],
                         sr_stderr = [], sr_exit_code = - 1,
                         sr_message =
                           ''Command timed out after '' @ str_int actual_timeout @ ''s'' \<rparr>
                   | Raised e \<Rightarrow>
                       \<lparr> sr_success = False, sr_command = command, sr_stdout = [],
                         sr_stderr = [], sr_exit_code = - 1,
                         sr_message = ''Error executing command: '' @ exc_str e \<rparr>),
                  [(command, actual_timeout)])))"

section \<open>Risk assessment (agent/approvals.py)\<close>

record ApprovalDecision =
  ad_approved :: bool
  ad_risk_score :: pyfloat
  ad_reason :: string
  ad_requires_confirmation :: bool

record ApprovalSystem =
  auto_approve_max :: pyfloat
  delete_file_max :: int
  dangerous_patterns :: "string list"



text \<open>
  The regular-expression engine is Python's library. For a pattern it either has a
  compilation error (\<open>re.error\<close>) or says, for every string, whether the pattern is found in
  it ignoring case. \<open>re.search(pattern, v, re.IGNORECASE)\<close> compiles the pattern first
  and then raises \<open>TypeError\<close> when \<open>v\<close> is not a \<open>str\<close>.
\<close>

record regex_lib =
  compile_error :: "string \<Rightarrow> py_exc option"
  found_ic :: "string \<Rightarrow> string \<Rightarrow> bool"

fun type_name :: "pyval \<Rightarrow> string" where
  "type_name PNone = ''NoneType''"
| "type_name (PBool b) = ''bool''"
| "type_name (PInt i) = ''int''"
| "type_name (PFloat x) = ''float''"
| "type_name (PStr s) = ''str''"
| "type_name (PList xs) = ''list''"
| "type_name (PDict kvs) = ''dict''"

definition re_search_ic :: "regex_lib \<Rightarrow> string \<Rightarrow> pyval \<Rightarrow> py_exc + bool" where
  "re_search_ic lib pattern v =
     (case compile_error lib pattern of
        Some e \<Rightarrow> Inl e
      | None \<Rightarrow>
          (case v of
             PStr s \<Rightarrow> Inr (found_ic lib pattern s)
           | _ \<Rightarrow> Inl (Exc ''TypeError''
                        (''expected string or bytes-like object, got '' @ [CHR 0x27]
                           @ type_name v @ [CHR 0x27]))))"

text \<open>
  \<open>_is_dangerous_shell_cmd\<close>: the loop over the patterns returns at the first one found;
  an exception of \<open>re.search\<close> leaves it.
\<close>

fun scan_patterns :: "regex_lib \<Rightarrow> string list \<Rightarrow> pyval \<Rightarrow> py_exc + bool" where
  "scan_patterns lib [] command = Inr False"
| "scan_patterns lib (pattern # patterns) command =
     (case re_search_ic lib pattern command of
        Inl e \<Rightarrow> Inl e
      | Inr found \<Rightarrow> if found then Inr True else scan_patterns lib patterns command)"

definition is_dangerous_shell_cmd ::
  "regex_lib \<Rightarrow> ApprovalSystem \<Rightarrow> pyval \<Rightarrow> py_exc + bool" where
  "is_dangerous_shell_cmd lib self command =
     scan_patterns lib (dangerous_patterns self) command"




definition assess_action ::
  "regex_lib \<Rightarrow> ApprovalSystem \<Rightarrow> Action \<Rightarrow> py_exc + ApprovalDecision" where
  "assess_action lib self action =
     (let risk = risk_score action in
      if type_value (type action) = ''fs_delete'' then
        Inr \<lparr> ad_approved = float_le risk (auto_approve_max self), ad_risk_score = risk,
              ad_reason = ''File deletion'',
              ad_requires_confirmation = float_gt risk (auto_approve_max self) \<rparr>
      else
        (case (if type_value (type action) = ''shell_run''
               then is_dangerous_shell_cmd lib self
                      (dict_get_default (args action) ''command'' (PStr []))
               else Inr False) of
           Inl e \<Rightarrow> Inl e
         | Inr dangerous \<Rightarrow>
             if dangerous then
               Inr \<lparr> ad_approved = False, ad_risk_score = py_max2 risk (Finite 0.8),
                     ad_reason = ''Dangerous shell command'',
                     ad_requires_confirmation = True \<rparr>
             else
               (let approved = float_le risk (auto_approve_max self) in
                Inr \<lparr> ad_approved = approved, ad_risk_score = risk,
                      ad_reason = ''Standard risk assessment'',
                      ad_requires_confirmation = (\<not> approved) \<rparr>)))"

section \<open>Filesystem adapter (tools/fs.py)\<close>

text \<open>
  \<open>FileOperation\<close>. The type \<open>'s\<close> is the representation of \<open>str\<close>: the loop handles the
  texts as wholes (UTF-8 bytes, as above); the adapter itself looks at their characters.
\<close>

record 's FileOperation =
  fo_success :: bool
  fo_message :: 's
  fo_diff :: "'s option"
  fo_path :: "'s option"
  fo_data :: "'s option"

subsection \<open>Text\<close>

text \<open>
  In the adapter a \<open>str\<close> is the list of its code points, so that \<open>len\<close> is \<open>length\<close>.
  \<open>ustr\<close> gives the code points of an ASCII literal.
\<close>

type_synonym ustr = "nat list"

definition ustr :: "string \<Rightarrow> ustr" where
  "ustr s = map of_char s"

text \<open>
  \<open>s.encode("utf-8")\<close> exists unless \<open>s\<close> holds a surrogate (U+D800 to U+DFFF); its length
  is one to four bytes for each code point.
\<close>

definition surrogate :: "nat \<Rightarrow> bool" where
  "surrogate c = (0xD800 \<le> c \<and> c \<le> 0xDFFF)"

definition encodable :: "ustr \<Rightarrow> bool" where
  "encodable s = (\<not> list_ex surrogate s)"

definition utf8_len :: "nat \<Rightarrow> nat" where
  "utf8_len c = (if c < 0x80 then 1 else if c < 0x800 then 2 else if c < 0x10000 then 3 else 4)"

definition encoded_size :: "ustr \<Rightarrow> nat" where
  "encoded_size s = sum_list (map utf8_len s)"

text \<open>
  The characters at which \<open>str.splitlines\<close> ends a line: \<open>\n\<close>, \<open>\v\<close>, \<open>\f\<close>, \<open>\r\<close>, U+001C
  to U+001E, U+0085, U+2028 and U+2029; \<open>\r\n\<close> ends one line, not two.
\<close>

definition line_boundary :: "nat \<Rightarrow> bool" where
  "line_boundary c = (c \<in> set [10, 11, 12, 13, 28, 29, 30, 133, 8232, 8233])"

text \<open>\<open>s.splitlines(keepends=True)\<close>; \<open>acc\<close> holds the current line, reversed.\<close>

fun splitlines_acc :: "ustr \<Rightarrow> ustr \<Rightarrow> ustr list" where
  "splitlines_acc acc [] = (if acc = [] then [] else [rev acc])"
| "splitlines_acc acc (c # cs) =
     (if c = 13 then
        (case cs of
           [] \<Rightarrow> [rev acc @ [13]]
         | d # ds \<Rightarrow>
             if d = 10 then (rev acc @ [13, 10]) # splitlines_acc [] ds
             else (rev acc @ [13]) # splitlines_acc [] cs)
      else if line_boundary c then (rev acc @ [c]) # splitlines_acc [] cs
      else splitlines_acc (c # acc) cs)"

definition splitlines :: "ustr \<Rightarrow> ustr list" where
  "splitlines s = splitlines_acc [] s"

text \<open>
  What text mode does on reading (\<open>newline=None\<close>): \<open>\r\n\<close> and \<open>\r\<close> become \<open>\n\<close>. On
  writing, \<open>\n\<close> becomes the line separator of the platform, which is \<open>\n\<close> itself here
  (the paths of the adapter are POSIX paths).
\<close>

fun universal_newlines :: "ustr \<Rightarrow> ustr" where
  "universal_newlines [] = []"
| "universal_newlines (c # cs) =
     (if c = 13 then
        (case cs of
           [] \<Rightarrow> [10]
         | d # ds \<Rightarrow> if d = 10 then 10 # universal_newlines ds else 10 # universal_newlines cs)
      else c # universal_newlines cs)"

text \<open>\<open>s.endswith('\n')\<close>.\<close>

definition ends_with_newline :: "ustr \<Rightarrow> bool" where
  "ends_with_newline s = (s \<noteq> [] \<and> last s = 10)"

text \<open>\<open>s.replace(old, new, 1)\<close>: the first occurrence, from the left.\<close>

fun replace_first :: "ustr \<Rightarrow> ustr \<Rightarrow> ustr \<Rightarrow> ustr" where
  "replace_first old new [] = (if old = [] then new else [])"
| "replace_first old new (c # cs) =
     (if prefix old (c # cs) then new @ drop (length old) (c # cs)
      else c # replace_first old new cs)"

text \<open>\<open>sep.join(xs)\<close> and \<open>sorted(xs)\<close> for texts: code points compare as numbers.\<close>

fun ujoin :: "ustr \<Rightarrow> ustr list \<Rightarrow> ustr" where
  "ujoin sep [] = []"
| "ujoin sep [x] = x"
| "ujoin sep (x # y # ys) = x @ sep @ ujoin sep (y # ys)"

fun ustr_le :: "ustr \<Rightarrow> ustr \<Rightarrow> bool" where
  "ustr_le [] ys = True"
| "ustr_le (x # xs) [] = False"
| "ustr_le (x # xs) (y # ys) = (x < y \<or> (x = y \<and> ustr_le xs ys))"

fun insert_sorted :: "ustr \<Rightarrow> ustr list \<Rightarrow> ustr list" where
  "insert_sorted x [] = [x]"
| "insert_sorted x (y # ys) = (if ustr_le x y then x # y # ys else y # insert_sorted x ys)"

definition sorted_texts :: "ustr list \<Rightarrow> ustr list" where
  "sorted_texts xs = foldr insert_sorted xs []"

subsection \<open>The filesystem\<close>

text \<open>
  A path is the list of its components from the root of the filesystem. The files are a
  table from paths to nodes: a directory, a file holding a text (its bytes are the UTF-8
  encoding, with surrogates written as code points of three bytes, which no decoder
  accepts), or a file of a given size whose bytes are no encoding of a text. The first entry
  for a path counts, and the root is always a directory.
\<close>

type_synonym path = "ustr list"

datatype node = Dir | TextFile ustr | BinaryFile nat

type_synonym files = "(path \<times> node) list"

definition entry :: "files \<Rightarrow> path \<Rightarrow> node option" where
  "entry fs p = (if p = [] then Some Dir else map_of fs p)"

definition store :: "files \<Rightarrow> path \<Rightarrow> node \<Rightarrow> files" where
  "store fs p n = (p, n) # filter (\<lambda>(q, m). q \<noteq> p) fs"

text \<open>
  The system walks from the directory \<open>made\<close> down the components \<open>cs\<close>: it arrives, or a
  component is missing (\<open>ENOENT\<close>), or a component is a file (\<open>ENOTDIR\<close>).
\<close>

datatype walk = Reached | Missing | Blocked

fun walk_to :: "files \<Rightarrow> path \<Rightarrow> ustr list \<Rightarrow> walk" where
  "walk_to fs made [] = Reached"
| "walk_to fs made (c # cs) =
     (case entry fs (made @ [c]) of
        None \<Rightarrow> Missing
      | Some Dir \<Rightarrow> walk_to fs (made @ [c]) cs
      | Some n \<Rightarrow> Blocked)"

text \<open>What is at a path: its entry, if the walk to its parent arrives.\<close>

definition node_at :: "files \<Rightarrow> path \<Rightarrow> node option" where
  "node_at fs p = (case walk_to fs [] (butlast p) of Reached \<Rightarrow> entry fs p | w \<Rightarrow> None)"

text \<open>\<open>str(p)\<close> and \<open>p.name\<close> for an absolute path; \<open>Path(s).is_absolute()\<close>.\<close>

definition path_str :: "path \<Rightarrow> ustr" where
  "path_str p = (if p = [] then ustr ''/'' else concat (map (\<lambda>c. ustr ''/'' @ c) p))"

definition path_name :: "path \<Rightarrow> ustr" where
  "path_name p = (if p = [] then [] else last p)"

definition is_absolute :: "ustr \<Rightarrow> bool" where
  "is_absolute s = (s \<noteq> [] \<and> hd s = 47)"

text \<open>Exceptions of the adapter's calls: the class and \<open>str(e)\<close>.\<close>

datatype fs_exc = FsExc (fx_class: string) (fx_str: ustr)

text \<open>The calls to the operating system, for the refusals below.\<close>

datatype access =
  Exists path | IsFile path | IsDir path | StatSize path | ReadText path | WriteText path
  | Mkdir path | Iterdir path

text \<open>
  What the adapter takes from its platform and libraries:
  \<^item> \<open>resolve root s\<close> is \<open>(root / s).resolve()\<close>, the canonical absolute path, or the
    exception it raises. It follows the symbolic links of the filesystem; the files above
    hold none, and no operation of the adapter makes one, so it does not change with them;
  \<^item> \<open>fault a\<close> is the \<open>OSError\<close> with which the operating system refuses the call \<open>a\<close>
    whatever is at the path (permissions, I/O errors, limits), if it does;
  \<^item> \<open>error_text c p\<close> is \<open>str(e)\<close> for the exception of class \<open>c\<close> that a call raises on the
    path \<open>p\<close> because of what is there, and \<open>encode_error_text s\<close> for the
    \<open>UnicodeEncodeError\<close> of the text \<open>s\<close>;
  \<^item> \<open>move fs src dst\<close> is \<open>shutil.move\<close>: the files after the move, or its exception;
  \<^item> \<open>unified_diff\<close> is \<open>difflib.unified_diff\<close>;
  \<^item> \<open>time\<close> is \<open>int(time.time())\<close>.
\<close>

record os =
  resolve :: "path \<Rightarrow> ustr \<Rightarrow> fs_exc + path"
  fault :: "access \<Rightarrow> fs_exc option"
  error_text :: "string \<Rightarrow> path \<Rightarrow> ustr"
  encode_error_text :: "ustr \<Rightarrow> ustr"
  move :: "files \<Rightarrow> path \<Rightarrow> path \<Rightarrow> fs_exc + files"
  unified_diff :: "ustr list \<Rightarrow> ustr list \<Rightarrow> ustr \<Rightarrow> ustr \<Rightarrow> ustr list"
  time :: int

text \<open>
  A call of the adapter is a function from the files to its value, or the exception it
  raises, and the files it leaves.
\<close>

type_synonym 'a io = "files \<Rightarrow> (fs_exc + 'a) \<times> files"

definition io_return :: "'a \<Rightarrow> 'a io" where
  "io_return x fs = (Inr x, fs)"

definition io_raise :: "fs_exc \<Rightarrow> 'a io" where
  "io_raise e fs = (Inl e, fs)"

definition io_bind :: "'a io \<Rightarrow> ('a \<Rightarrow> 'b io) \<Rightarrow> 'b io" where
  "io_bind m f fs = (case m fs of (Inl e, fs') \<Rightarrow> (Inl e, fs') | (Inr x, fs') \<Rightarrow> f x fs')"

text \<open>\<open>try: ... except Exception as e: return handler(e)\<close>.\<close>

definition io_catch :: "'a io \<Rightarrow> (fs_exc \<Rightarrow> 'a) \<Rightarrow> files \<Rightarrow> 'a \<times> files" where
  "io_catch m handler fs =
     (case m fs of (Inl e, fs') \<Rightarrow> (handler e, fs') | (Inr x, fs') \<Rightarrow> (x, fs'))"

definition raised :: "os \<Rightarrow> string \<Rightarrow> path \<Rightarrow> fs_exc" where
  "raised os cls p = FsExc cls (error_text os cls p)"

text \<open>
  \<open>p.exists()\<close>, \<open>p.is_file()\<close>, \<open>p.is_dir()\<close>: a missing or blocked path is an answer, not
  an error. \<open>p.stat().st_size\<close> is asked of files only.
\<close>

definition path_exists :: "os \<Rightarrow> path \<Rightarrow> bool io" where
  "path_exists os p fs =
     (case fault os (Exists p) of
        Some e \<Rightarrow> (Inl e, fs)
      | None \<Rightarrow> (Inr (node_at fs p \<noteq> None), fs))"

definition path_is_file :: "os \<Rightarrow> path \<Rightarrow> bool io" where
  "path_is_file os p fs =
     (case fault os (IsFile p) of
        Some e \<Rightarrow> (Inl e, fs)
      | None \<Rightarrow> (Inr (node_at fs p \<noteq> None \<and> node_at fs p \<noteq> Some Dir), fs))"

definition path_is_dir :: "os \<Rightarrow> path \<Rightarrow> bool io" where
  "path_is_dir os p fs =
     (case fault os (IsDir p) of
        Some e \<Rightarrow> (Inl e, fs)
      | None \<Rightarrow> (Inr (node_at fs p = Some Dir), fs))"

text \<open>The error of a call on a path at which there is nothing.\<close>

definition absent :: "os \<Rightarrow> files \<Rightarrow> path \<Rightarrow> fs_exc" where
  "absent os fs p =
     (if walk_to fs [] (butlast p) = Blocked then raised os ''NotADirectoryError'' p
      else raised os ''FileNotFoundError'' p)"

definition stat_size :: "os \<Rightarrow> path \<Rightarrow> nat io" where
  "stat_size os p fs =
     (case fault os (StatSize p) of
        Some e \<Rightarrow> (Inl e, fs)
      | None \<Rightarrow>
          (case node_at fs p of
             None \<Rightarrow> (Inl (absent os fs p), fs)
           | Some Dir \<Rightarrow> (Inr 0, fs)
           | Some (TextFile t) \<Rightarrow> (Inr (encoded_size t), fs)
           | Some (BinaryFile n) \<Rightarrow> (Inr n, fs)))"

text \<open>\<open>p.read_text(encoding="utf-8")\<close>.\<close>

definition read_text :: "os \<Rightarrow> path \<Rightarrow> ustr io" where
  "read_text os p fs =
     (case fault os (ReadText p) of
        Some e \<Rightarrow> (Inl e, fs)
      | None \<Rightarrow>
          (case node_at fs p of
             None \<Rightarrow> (Inl (absent os fs p), fs)
           | Some Dir \<Rightarrow> (Inl (raised os ''IsADirectoryError'' p), fs)
           | Some (BinaryFile n) \<Rightarrow> (Inl (raised os ''UnicodeDecodeError'' p), fs)
           | Some (TextFile t) \<Rightarrow>
               if encodable t then (Inr (universal_newlines t), fs)
               else (Inl (raised os ''UnicodeDecodeError'' p), fs)))"

text \<open>
  \<open>p.write_text(data, encoding="utf-8")\<close>: the file is opened for writing, which creates
  or empties it, and then the text is encoded and written; a text that cannot be encoded
  leaves the file empty.
\<close>

definition write_text :: "os \<Rightarrow> path \<Rightarrow> ustr \<Rightarrow> unit io" where
  "write_text os p data fs =
     (case fault os (WriteText p) of
        Some e \<Rightarrow> (Inl e, fs)
      | None \<Rightarrow>
          (case walk_to fs [] (butlast p) of
             Missing \<Rightarrow> (Inl (raised os ''FileNotFoundError'' p), fs)
           | Blocked \<Rightarrow> (Inl (raised os ''NotADirectoryError'' p), fs)
           | Reached \<Rightarrow>
               if entry fs p = Some Dir then (Inl (raised os ''IsADirectoryError'' p), fs)
               else if \<not> encodable data
                 then (Inl (FsExc ''UnicodeEncodeError'' (encode_error_text os data)),
                       store fs p (TextFile []))
               else (Inr (), store fs p (TextFile data))))"

text \<open>\<open>os.mkdir(p)\<close>.\<close>

definition os_mkdir :: "os \<Rightarrow> path \<Rightarrow> files \<Rightarrow> fs_exc option \<times> files" where
  "os_mkdir os p fs =
     (case fault os (Mkdir p) of
        Some e \<Rightarrow> (Some e, fs)
      | None \<Rightarrow>
          (case walk_to fs [] (butlast p) of
             Missing \<Rightarrow> (Some (raised os ''FileNotFoundError'' p), fs)
           | Blocked \<Rightarrow> (Some (raised os ''NotADirectoryError'' p), fs)
           | Reached \<Rightarrow>
               if entry fs p \<noteq> None then (Some (raised os ''FileExistsError'' p), fs)
               else (None, store fs p Dir)))"

text \<open>
  \<open>Path.mkdir\<close> with \<open>exist_ok=True\<close>. An error of \<open>os.mkdir\<close> other than
  \<open>FileNotFoundError\<close> is dropped when \<open>p\<close> is a directory. Without \<open>parents\<close>:
\<close>

definition unless_dir :: "os \<Rightarrow> path \<Rightarrow> fs_exc \<Rightarrow> unit io" where
  "unless_dir os p e = io_bind (path_is_dir os p) (\<lambda>is_dir.
     if is_dir then io_return () else io_raise e)"

definition mkdir :: "os \<Rightarrow> path \<Rightarrow> unit io" where
  "mkdir os p fs =
     (case os_mkdir os p fs of
        (None, fs') \<Rightarrow> (Inr (), fs')
      | (Some e, fs') \<Rightarrow>
          if fx_class e = ''FileNotFoundError'' then (Inl e, fs')
          else unless_dir os p e fs')"

text \<open>
  With \<open>parents=True\<close>, on \<open>FileNotFoundError\<close> the parent is made in the same way and
  \<open>p\<close> is tried again; the root is its own parent. The path is taken with its last
  component first.
\<close>

fun mkdir_parents_rev :: "os \<Rightarrow> ustr list \<Rightarrow> unit io" where
  "mkdir_parents_rev os [] fs = mkdir os [] fs"
| "mkdir_parents_rev os (c # rp) fs =
     (case os_mkdir os (rev (c # rp)) fs of
        (None, fs') \<Rightarrow> (Inr (), fs')
      | (Some e, fs') \<Rightarrow>
          if fx_class e = ''FileNotFoundError'' then
            (case mkdir_parents_rev os rp fs' of
               (Inl e', fs'') \<Rightarrow> (Inl e', fs'')
             | (Inr u, fs'') \<Rightarrow> mkdir os (rev (c # rp)) fs'')
          else unless_dir os (rev (c # rp)) e fs')"

definition mkdir_parents :: "os \<Rightarrow> path \<Rightarrow> unit io" where
  "mkdir_parents os p = mkdir_parents_rev os (rev p)"

text \<open>\<open>[item.name for item in p.iterdir()]\<close>.\<close>

definition iterdir_names :: "os \<Rightarrow> path \<Rightarrow> ustr list io" where
  "iterdir_names os p fs =
     (case fault os (Iterdir p) of
        Some e \<Rightarrow> (Inl e, fs)
      | None \<Rightarrow>
          (case node_at fs p of
             None \<Rightarrow> (Inl (absent os fs p), fs)
           | Some Dir \<Rightarrow>
               (Inr (map last (filter (\<lambda>q. q \<noteq> [] \<and> butlast q = p) (remdups (map fst fs)))),
                fs)
           | Some n \<Rightarrow> (Inl (raised os ''NotADirectoryError'' p), fs)))"

text \<open>\<open>shutil.move(str(src), str(dst))\<close>.\<close>

definition shutil_move :: "os \<Rightarrow> path \<Rightarrow> path \<Rightarrow> unit io" where
  "shutil_move os src dst fs =
     (case move os fs src dst of Inl e \<Rightarrow> (Inl e, fs) | Inr fs' \<Rightarrow> (Inr (), fs'))"

subsection \<open>The tool\<close>

record FileSystemTool =
  repo_root :: path
  max_file_size :: int

definition trash_dir :: "FileSystemTool \<Rightarrow> path" where
  "trash_dir self = repo_root self @ [ustr ''.agent_trash'']"

text \<open>
  \<open>_validate_path\<close>: \<open>relative_to\<close> raises unless the components of the root are the first
  components of the resolved path.
\<close>

definition validate_path :: "os \<Rightarrow> FileSystemTool \<Rightarrow> ustr \<Rightarrow> fs_exc + path" where
  "validate_path os self path =
     (case resolve os (repo_root self) path of
        Inl e \<Rightarrow> Inl e
      | Inr full_path \<Rightarrow>
          if \<not> prefix (repo_root self) full_path then
            Inl (FsExc ''ValueError''
                   (ustr ''Path '' @ path @ ustr '' is outside repository root''))
          else if is_absolute path then
            Inl (FsExc ''ValueError'' (ustr ''Absolute paths not allowed: '' @ path))
          else Inr full_path)"

definition validated :: "os \<Rightarrow> FileSystemTool \<Rightarrow> ustr \<Rightarrow> path io" where
  "validated os self path fs = (validate_path os self path, fs)"

text \<open>\<open>_generate_diff\<close>.\<close>

definition generate_diff :: "os \<Rightarrow> ustr \<Rightarrow> ustr \<Rightarrow> ustr \<Rightarrow> ustr" where
  "generate_diff os old_content new_content filename =
     (let old_lines = splitlines old_content;
          new_lines = splitlines new_content
      in concat (unified_diff os old_lines new_lines
                   (ustr ''a/'' @ filename) (ustr ''b/'' @ filename)))"

text \<open>The results the operations build.\<close>

definition failed_at :: "ustr \<Rightarrow> path \<Rightarrow> ustr FileOperation" where
  "failed_at message full_path =
     \<lparr> fo_success = False, fo_message = message, fo_diff = None,
       fo_path = Some (path_str full_path), fo_data = None \<rparr>"

definition failed_with :: "string \<Rightarrow> ustr \<Rightarrow> fs_exc \<Rightarrow> ustr FileOperation" where
  "failed_with what path e =
     \<lparr> fo_success = False, fo_message = ustr what @ path @ ustr '': '' @ fx_str e,
       fo_diff = None, fo_path = None, fo_data = None \<rparr>"

definition unat :: "nat \<Rightarrow> ustr" where
  "unat n = ustr (str_nat n)"

definition uint :: "int \<Rightarrow> ustr" where
  "uint i = ustr (str_int i)"

definition read :: "os \<Rightarrow> FileSystemTool \<Rightarrow> ustr \<Rightarrow> files \<Rightarrow> ustr FileOperation \<times> files" where
  "read os self path =
     io_catch
       (io_bind (validated os self path) (\<lambda>full_path.
        io_bind (path_exists os full_path) (\<lambda>exists.
        if \<not> exists then io_return (failed_at (ustr ''File not found: '' @ path) full_path)
        else
        io_bind (path_is_file os full_path) (\<lambda>is_file.
        if \<not> is_file then io_return (failed_at (ustr ''Not a file: '' @ path) full_path)
        else
        io_bind (stat_size os full_path) (\<lambda>st_size.
        if int st_size > max_file_size self then
          io_return (failed_at (ustr ''File too large: '' @ path @ ustr '' (max ''
                                  @ uint (max_file_size self) @ ustr '' bytes)'') full_path)
        else
        io_bind (read_text os full_path) (\<lambda>content.
        io_return \<lparr> fo_success = True,
                    fo_message = ustr ''Read '' @ unat (length content) @ ustr '' bytes'',
                    fo_diff = None, fo_path = Some (path_str full_path),
                    fo_data = Some content \<rparr>))))))
       (failed_with ''Error reading '' path)"

text \<open>\<open>write\<close> (the name is a keyword of Isabelle, hence \<open>write_file\<close>).\<close>

definition write_file ::
  "os \<Rightarrow> FileSystemTool \<Rightarrow> ustr \<Rightarrow> ustr \<Rightarrow> files \<Rightarrow> ustr FileOperation \<times> files" where
  "write_file os self path content =
     io_catch
       (io_bind (validated os self path) (\<lambda>full_path.
        if \<not> encodable content
          then io_raise (FsExc ''UnicodeEncodeError'' (encode_error_text os content))
        else if int (encoded_size content) > max_file_size self
          then io_return (failed_at (ustr ''Content too large for '' @ path) full_path)
        else
        io_bind (mkdir_parents os (butlast full_path)) (\<lambda>u.
        io_bind (path_exists os full_path) (\<lambda>exists.
        io_bind (if exists then read_text os full_path else io_return []) (\<lambda>old_content.
        io_bind (write_text os full_path content) (\<lambda>u.
        (let diff = generate_diff os old_content content path;
             action = (if old_content \<noteq> [] then ''Updated'' else ''Created'')
         in io_return \<lparr> fo_success = True,
                        fo_message = ustr action @ ustr '' '' @ path @ ustr '' (''
                                       @ unat (length content) @ ustr '' bytes)'',
                        fo_diff = Some diff, fo_path = Some (path_str full_path),
                        fo_data = None \<rparr>)))))))
       (failed_with ''Error writing '' path)"

definition edit ::
  "os \<Rightarrow> FileSystemTool \<Rightarrow> ustr \<Rightarrow> ustr \<Rightarrow> ustr \<Rightarrow> files
   \<Rightarrow> ustr FileOperation \<times> files" where
  "edit os self path old_text new_text =
     io_catch
       (io_bind (validated os self path) (\<lambda>full_path.
        io_bind (path_exists os full_path) (\<lambda>exists.
        if \<not> exists then io_return (failed_at (ustr ''File not found: '' @ path) full_path)
        else
        io_bind (read_text os full_path) (\<lambda>content.
        if \<not> sublist old_text content then
          io_return (failed_at (ustr ''Text not found in '' @ path
                                  @ ustr ''. Cannot apply edit.'') full_path)
        else
        (let new_content = replace_first old_text new_text content in
         io_bind (write_text os full_path new_content) (\<lambda>u.
         (let diff = generate_diff os content new_content path
          in io_return \<lparr> fo_success = True, fo_message = ustr ''Edited '' @ path,
                         fo_diff = Some diff, fo_path = Some (path_str full_path),
                         fo_data = None \<rparr>)))))))
       (failed_with ''Error editing '' path)"

text \<open>
  \<open>insert_lines\<close>. \<open>lines.insert(i, x)\<close> puts \<open>x\<close> before the item at \<open>i\<close>, at the end when
  there is none; \<open>lines[i] = x\<close> raises \<open>IndexError\<close> when there is none.
\<close>

definition insert_lines ::
  "os \<Rightarrow> FileSystemTool \<Rightarrow> ustr \<Rightarrow> int \<Rightarrow> ustr \<Rightarrow> ustr \<Rightarrow> files
   \<Rightarrow> ustr FileOperation \<times> files" where
  "insert_lines os self path line_number content operation =
     io_catch
       (io_bind (validated os self path) (\<lambda>full_path.
        io_bind (path_exists os full_path) (\<lambda>exists.
        if \<not> exists then io_return (failed_at (ustr ''File not found: '' @ path) full_path)
        else
        io_bind (read_text os full_path) (\<lambda>text.
        (let lines0 = splitlines text;
             lines = (if lines0 \<noteq> [] \<and> \<not> ends_with_newline (last lines0)
                      then butlast lines0 @ [last lines0 @ [10]] else lines0)
         in if line_number < 1 \<or> line_number > int (length lines) + 1 then
              io_return (failed_at (ustr ''Line number '' @ uint line_number
                                      @ ustr '' out of range (file has ''
                                      @ unat (length lines) @ ustr '' lines)'') full_path)
            else
            (let old_content = concat lines;
                 content1 = (if content \<noteq> [] \<and> \<not> ends_with_newline content
                             then content @ [10] else content);
                 n = nat line_number
             in io_bind
                  (if operation = ustr ''after''
                     then io_return (Some (take n lines @ [content1] @ drop n lines))
                   else if operation = ustr ''before''
                     then io_return (Some (take (n - 1) lines @ [content1] @ drop (n - 1) lines))
                   else if operation = ustr ''replace''
                     then (if n - 1 < length lines
                           then io_return (Some (lines[n - 1 := content1]))
                           else io_raise (FsExc ''IndexError''
                                            (ustr ''list assignment index out of range'')))
                   else io_return None) (\<lambda>new_lines.
                (case new_lines of
                   None \<Rightarrow>
                     io_return (failed_at (ustr ''Invalid operation: '' @ operation
                         @ ustr ''. Must be '' @ [39] @ ustr ''after'' @ [39] @ ustr '', ''
                         @ [39] @ ustr ''before'' @ [39] @ ustr '', or '' @ [39]
                         @ ustr ''replace'' @ [39]) full_path)
                 | Some lines1 \<Rightarrow>
                     (let new_content = concat lines1 in
                      io_bind (write_text os full_path new_content) (\<lambda>u.
                      (let diff = generate_diff os old_content new_content path
                       in io_return
                            \<lparr> fo_success = True,
                              fo_message = ustr ''Inserted at line '' @ uint line_number
                                             @ ustr '' in '' @ path,
                              fo_diff = Some diff, fo_path = Some (path_str full_path),
                              fo_data = None \<rparr>)))))))))))
       (failed_with ''Error inserting in '' path)"

definition delete :: "os \<Rightarrow> FileSystemTool \<Rightarrow> ustr \<Rightarrow> files \<Rightarrow> ustr FileOperation \<times> files" where
  "delete os self path =
     io_catch
       (io_bind (validated os self path) (\<lambda>full_path.
        io_bind (path_exists os full_path) (\<lambda>exists.
        if \<not> exists then io_return (failed_at (ustr ''File not found: '' @ path) full_path)
        else
        io_bind (mkdir os (trash_dir self)) (\<lambda>u.
        (let timestamp = time os;
             trash_path = trash_dir self @ [uint timestamp @ ustr ''_'' @ path_name full_path]
         in io_bind (shutil_move os full_path trash_path) (\<lambda>u.
            io_return \<lparr> fo_success = True,
                        fo_message = ustr ''Deleted '' @ path @ ustr '' (moved to ''
                                       @ path_str trash_path @ ustr '')'',
                        fo_diff = None, fo_path = Some (path_str full_path),
                        fo_data = None \<rparr>))))))
       (failed_with ''Error deleting '' path)"

definition list_directory ::
  "os \<Rightarrow> FileSystemTool \<Rightarrow> ustr \<Rightarrow> files \<Rightarrow> ustr FileOperation \<times> files" where
  "list_directory os self path =
     io_catch
       (io_bind (validated os self path) (\<lambda>full_path.
        io_bind (path_exists os full_path) (\<lambda>exists.
        if \<not> exists
          then io_return (failed_at (ustr ''Directory not found: '' @ path) full_path)
        else
        io_bind (path_is_dir os full_path) (\<lambda>is_dir.
        if \<not> is_dir then io_return (failed_at (ustr ''Not a directory: '' @ path) full_path)
        else
        io_bind (iterdir_names os full_path) (\<lambda>names.
        (let items = sorted_texts names
         in io_return \<lparr> fo_success = True,
                        fo_message = ustr ''Found '' @ unat (length items) @ ustr '' items'',
                        fo_diff = None, fo_path = Some (path_str full_path),
                        fo_data = None \<rparr>))))))
       (failed_with ''Error listing '' path)"

section \<open>Session state (agent/state.py)\<close>

text \<open>The dictionary \<open>step_result\<close> the loop builds for each executed action.\<close>

record step_result =
  st_step :: nat
  st_action_type :: string
  st_success :: bool
  st_message :: string
  st_diff :: "string option"

record executed_action =
  ea_type :: string
  ea_result :: step_result
  ea_timestamp :: string

record verification =
  vr_status :: string
  vr_lint_errors :: "string list"
  vr_type_errors :: "string list"
  vr_failing_tests :: "string list"
  vr_summary :: string

record SessionState =
  messages :: "(string \<times> string) list"
  current_plan :: "Plan option"
  executed_actions :: "executed_action list"
  diffs :: "string list"
  verification_results :: "verification list"


text \<open>\<open>add_action_result\<close>; \<open>now\<close> is \<open>datetime.now().isoformat()\<close>, read by the caller.\<close>

definition add_action_result ::
  "string \<Rightarrow> string \<Rightarrow> step_result \<Rightarrow> SessionState \<Rightarrow> SessionState" where
  "add_action_result now action_type result self =
     self\<lparr> executed_actions := executed_actions self
              @ [\<lparr> ea_type = action_type, ea_result = result, ea_timestamp = now \<rparr>] \<rparr>"

definition add_diff :: "string \<Rightarrow> SessionState \<Rightarrow> SessionState" where
  "add_diff d self = (if d \<noteq> [] then self\<lparr> diffs := diffs self @ [d] \<rparr> else self)"

section \<open>Orchestration loop (agent/core.py, CodingAgent.agent_loop)\<close>

text \<open>
  A context snippet is a dictionary: the retriever's have the keys "path", "content" and
  "lines", the loop's own "path" and "content".
\<close>

type_synonym snippet = "string \<rightharpoonup> pyval"

text \<open>
  The collaborators of the loop are outside this development: retrieval, the planner and
  reflector, the executor with its tools, verification, the filesystem read used to refresh
  the context, and the clock. Each is a function on a world \<open>'w\<close> that returns its result
  (or the exception it raises) and the world it leaves.
\<close>

record 'w env =
  retrieve :: "string \<Rightarrow> 'w \<Rightarrow> (py_exc + snippet list) \<times> 'w"
  llm_plan :: "(string \<times> string) list \<Rightarrow> snippet list \<Rightarrow> 'w \<Rightarrow> (py_exc + Plan) \<times> 'w"
  llm_reflect ::
    "Plan option \<Rightarrow> string \<times> string \<Rightarrow> string list \<Rightarrow> 'w
     \<Rightarrow> (py_exc + ReflectionResult) \<times> 'w"
  execute :: "Action \<Rightarrow> 'w \<Rightarrow> (py_exc + ExecutionResult) \<times> 'w"
  verify :: "'w \<Rightarrow> (py_exc + verification) \<times> 'w"
  fs_read :: "string \<Rightarrow> 'w \<Rightarrow> (py_exc + string FileOperation) \<times> 'w"
  now :: "'w \<Rightarrow> string"

text \<open>The dictionary \<open>results\<close> that \<open>agent_loop\<close> returns.\<close>

record results =
  rs_success :: bool
  rs_iterations :: nat
  rs_steps_executed :: nat
  rs_steps :: "step_result list"
  rs_observations :: "Observation list"
  rs_self_corrections :: nat

text \<open>
  What the loop mutates: \<open>results\<close>, \<open>self.state\<close>, the list \<open>context\<close> (the field
  \<open>loop_context\<close>) and the world.
\<close>

record 'w loop_state =
  results :: results
  state :: SessionState
  loop_context :: "snippet list"
  world :: 'w

text \<open>
  How a block of the loop ends: it falls through (\<open>Continue\<close>), it executes
  \<open>return results\<close> (\<open>Return\<close>), or an exception leaves \<open>agent_loop\<close> (\<open>Raise\<close>).
\<close>

datatype 'a flow = Continue 'a | Return 'a | Raise py_exc 'a






definition fail_run :: "'w loop_state \<Rightarrow> 'w loop_state" where
  "fail_run st = st\<lparr> results := (results st)\<lparr> rs_success := False \<rparr> \<rparr>"

text \<open>
  The loop \<open>for fix_action in reflection.fix_plan.steps[:2]\<close>. Its body ends in
  \<open>break\<close> or in \<open>return results\<close> on every path, so no equation calls the function
  again. An exception of the executor is caught by the enclosing \<open>try\<close>, which fails the
  run and returns.
\<close>

fun fix_loop :: "'w env \<Rightarrow> Action list \<Rightarrow> 'w loop_state \<Rightarrow> 'w loop_state flow" where
  "fix_loop env [] st = Continue st"
| "fix_loop env (fix_action # fix_actions) st =
     (case execute env fix_action (world st) of
        (Inl e, w) \<Rightarrow> Return (fail_run (st\<lparr> world := w \<rparr>))
      | (Inr fix_result, w) \<Rightarrow>
          if er_success fix_result then
            (case observe fix_action fix_result of
               Inl e \<Rightarrow> Return (fail_run (st\<lparr> world := w \<rparr>))
             | Inr fix_observation \<Rightarrow>
                 (let st1 = st\<lparr> world := w,
                               results := (results st)\<lparr> rs_observations :=
                                 rs_observations (results st) @ [fix_observation] \<rparr> \<rparr>
                  in Continue
                       (if ob_context_update fix_observation \<noteq> [] then
                          st1\<lparr> loop_context := loop_context st1
                            @ [[''path'' \<mapsto>
                                  PStr (case ob_affected_files fix_observation of
                                          [] \<Rightarrow> ''fix'' | f # fs \<Rightarrow> f),
                                ''content'' \<mapsto>
                                  PStr (''Fixed: '' @ ob_message fix_observation)]] \<rparr>
                        else st1)))
          else Return (fail_run (st\<lparr> world := w \<rparr>)))"

text \<open>The block under \<open>if not observation.success\<close>.\<close>

definition handle_failure ::
  "'w env \<Rightarrow> Observation \<Rightarrow> 'w loop_state \<Rightarrow> 'w loop_state flow" where
  "handle_failure env observation st =
     (if ob_can_retry observation then
        (case llm_reflect env (current_plan (state st))
                (''fail'', ob_message observation) (diffs (state st)) (world st) of
           (Inl e, w) \<Rightarrow> Return (fail_run (st\<lparr> world := w \<rparr>))
         | (Inr reflection, w) \<Rightarrow>
             if steps (fix_plan reflection) \<noteq> [] then
               fix_loop env (take 2 (steps (fix_plan reflection)))
                 (st\<lparr> world := w,
                      results := (results st)\<lparr> rs_self_corrections :=
                        rs_self_corrections (results st) + 1 \<rparr> \<rparr>)
             else Continue (st\<lparr> world := w \<rparr>))
      else Return (fail_run st))"

text \<open>
  The refresh of the context after a successful action: each affected file is read again
  and its snippet replaced, or appended when the context has none for the path. An
  exception of the read is passed over.
\<close>

definition update_context :: "string \<Rightarrow> string \<Rightarrow> snippet list \<Rightarrow> snippet list" where
  "update_context file_path data ctx =
     (case find (\<lambda>idx. (ctx ! idx) ''path'' = Some (PStr file_path)) [0 ..< length ctx] of
        Some existing_idx \<Rightarrow> ctx[existing_idx := (ctx ! existing_idx)(''content'' \<mapsto> PStr data)]
      | None \<Rightarrow> ctx @ [[''path'' \<mapsto> PStr file_path, ''content'' \<mapsto> PStr data]])"

fun refresh_files :: "'w env \<Rightarrow> string list \<Rightarrow> 'w loop_state \<Rightarrow> 'w loop_state" where
  "refresh_files env [] st = st"
| "refresh_files env (file_path # file_paths) st =
     refresh_files env file_paths
       (case fs_read env file_path (world st) of
          (Inl e, w) \<Rightarrow> st\<lparr> world := w \<rparr>
        | (Inr file_content, w) \<Rightarrow>
            (case fo_data file_content of
               Some data \<Rightarrow>
                 if fo_success file_content \<and> data \<noteq> []
                 then st\<lparr> world := w,
                          loop_context := update_context file_path data (loop_context st) \<rparr>
                 else st\<lparr> world := w \<rparr>
             | None \<Rightarrow> st\<lparr> world := w \<rparr>))"

text \<open>The loop \<open>for action in actions_to_execute\<close>.\<close>

fun exec_actions :: "'w env \<Rightarrow> Action list \<Rightarrow> 'w loop_state \<Rightarrow> 'w loop_state flow" where
  "exec_actions env [] st = Continue st"
| "exec_actions env (action # actions) st =
     (case execute env action (world st) of
        (Inl e, w) \<Rightarrow> Raise e (st\<lparr> world := w \<rparr>)
      | (Inr exec_result, w) \<Rightarrow>
          (case observe action exec_result of
             Inl e \<Rightarrow> Raise e (st\<lparr> world := w \<rparr>)
           | Inr observation \<Rightarrow>
               (let step_result =
                      \<lparr> st_step = rs_steps_executed (results st) + 1,
                        st_action_type = type_value (type action),
                        st_success = ob_success observation,
                        st_message = ob_message observation,
                        st_diff = ob_diff observation \<rparr>;
                    results1 =
                      (results st)\<lparr> rs_steps := rs_steps (results st) @ [step_result],
                                     rs_observations :=
                                       rs_observations (results st) @ [observation],
                                     rs_steps_executed := rs_steps_executed (results st) + 1 \<rparr>;
                    state1 = add_action_result (now env w) (type_value (type action))
                               step_result (state st);
                    state2 = (case ob_diff observation of
                                Some d \<Rightarrow> if d \<noteq> [] then add_diff d state1 else state1
                              | None \<Rightarrow> state1);
                    st1 = st\<lparr> world := w, results := results1, state := state2 \<rparr>
                in (case (if \<not> ob_success observation
                          then handle_failure env observation st1
                          else Continue st1) of
                      Continue st2 \<Rightarrow>
                        exec_actions env actions
                          (if ob_success observation \<and> ob_context_update observation \<noteq> []
                           then refresh_files env (ob_affected_files observation) st2
                           else st2)
                    | Return st2 \<Rightarrow> Return st2
                    | Raise e st2 \<Rightarrow> Raise e st2))))"



section \<open>Statements about plan assessment\<close>








section \<open>Statements about the loop\<close>

text \<open>
  To say which actions a run executes, the environment is wrapped so that the world also
  carries the list of the actions given to the executor, in order. Nothing else changes.
\<close>

definition logged :: "'w env \<Rightarrow> ('w \<times> Action list) env" where
  "logged env =
     \<lparr> retrieve = (\<lambda>query (w, trace). case retrieve env query w of (r, w') \<Rightarrow> (r, (w', trace))),
       llm_plan = (\<lambda>msgs ctx (w, trace).
                     case llm_plan env msgs ctx w of (r, w') \<Rightarrow> (r, (w', trace))),
       llm_reflect = (\<lambda>plan report ds (w, trace).
                        case llm_reflect env plan report ds w of (r, w') \<Rightarrow> (r, (w', trace))),
       execute = (\<lambda>action (w, trace).
                    case execute env action w of (r, w') \<Rightarrow> (r, (w', trace @ [action]))),
       verify = (\<lambda>(w, trace). case verify env w of (r, w') \<Rightarrow> (r, (w', trace))),
       fs_read = (\<lambda>path (w, trace). case fs_read env path w of (r, w') \<Rightarrow> (r, (w', trace))),
       now = (\<lambda>(w, trace). now env w) \<rparr>"

text \<open>
  The state after the loop has executed \<open>action\<close>, leaving the world \<open>w\<close>, and has
  recorded the step with the observation of a failure: what \<open>exec_actions\<close> hands to the
  failure handling.
\<close>

definition record_step ::
  "'w env \<Rightarrow> Action \<Rightarrow> Observation \<Rightarrow> 'w \<Rightarrow> 'w loop_state \<Rightarrow> 'w loop_state" where
  "record_step env action observation w st =
     (let step_result =
            \<lparr> st_step = rs_steps_executed (results st) + 1,
              st_action_type = type_value (type action),
              st_success = ob_success observation,
              st_message = ob_message observation,
              st_diff = ob_diff observation \<rparr>
      in st\<lparr> world := w,
             results := (results st)\<lparr>
               rs_steps := rs_steps (results st) @ [step_result],
               rs_observations := rs_observations (results st) @ [observation],
               rs_steps_executed := rs_steps_executed (results st) + 1 \<rparr>,
             state := add_action_result (now env w) (type_value (type action)) step_result
                        (state st) \<rparr>)"

section \<open>Concrete inputs\<close>

definition denied_action :: Action where
  "denied_action =
     \<lparr> type = SHELL_RUN, rationale = ''run the tests'',
       args = [''command'' \<mapsto> PStr ''pytest''], target_files = [],
       risk_score = Finite 0.1 \<rparr>"

definition denied_result :: ExecutionResult where
  "denied_result =
     \<lparr> er_success = False, er_message = ''Error: Permission denied'',
       er_diff = [], er_data = PNone \<rparr>"

text \<open>
  A write whose \<open>path\<close> is the number 5, and the failed result the executor gives for it.
\<close>

definition numbered_write :: Action where
  "numbered_write =
     \<lparr> type = FS_WRITE, rationale = ''create the file'',
       args = [''path'' \<mapsto> PInt 5, ''content'' \<mapsto> PStr ''hello''],
       target_files = [], risk_score = Finite 0.1 \<rparr>"

definition numbered_write_result :: ExecutionResult where
  "numbered_write_result =
     \<lparr> er_success = False,
       er_message = ''Error writing 5: unsupported operand type(s) for /: '' @ [CHR 0x27]
                      @ ''PosixPath'' @ [CHR 0x27] @ '' and '' @ [CHR 0x27] @ ''int''
                      @ [CHR 0x27],
       er_diff = [], er_data = PDict [(''path'', PInt 5)] \<rparr>"





definition plan_of :: "Action list \<Rightarrow> Plan" where
  "plan_of xs =
     \<lparr> goal = ''goal'', steps = xs, expected_outcome = ''done'', rollback_hint = None \<rparr>"

definition sleep_tool :: ShellTool where
  "sleep_tool = \<lparr> allowlist = [''sleep'', ''pytest''], max_timeout = 120 \<rparr>"

definition never_matches :: regex_search where
  "never_matches pattern s = False"

definition always_matches :: regex_search where
  "always_matches pattern s = True"

definition times_out :: subprocess where
  "times_out command t = TimeoutExpired"

definition test_step :: Action where
  "test_step =
     \<lparr> type = SHELL_RUN, rationale = ''run the tests'',
       args = [''command'' \<mapsto> PStr ''pytest''], target_files = [],
       risk_score = Finite 0.1 \<rparr>"

definition failed_result :: ExecutionResult where
  "failed_result =
     \<lparr> er_success = False, er_message = ''Command failed'', er_diff = [], er_data = PNone \<rparr>"

definition fix_result :: "bool \<Rightarrow> ExecutionResult" where
  "fix_result ok =
     \<lparr> er_success = ok,
       er_message = (if ok then ''Created a.txt (5 bytes)'' else ''Content too large for a.txt''),
       er_diff = [], er_data = PNone \<rparr>"

definition empty_session :: SessionState where
  "empty_session =
     \<lparr> messages = [], current_plan = None, executed_actions = [], diffs = [],
       verification_results = [] \<rparr>"

definition scripted :: "bool \<Rightarrow> Action list \<Rightarrow> unit env" where
  "scripted fix_ok fixes =
     \<lparr> retrieve = (\<lambda>query w. (Inr [], w)),
       llm_plan = (\<lambda>msgs ctx w. (Inr (plan_of [test_step]), w)),
       llm_reflect = (\<lambda>plan report ds w.
                        (Inr \<lparr> analysis = ''the file is missing'', fix_plan = plan_of fixes \<rparr>, w)),
       execute = (\<lambda>action w.
                    (Inr (if type action = SHELL_RUN then failed_result else fix_result fix_ok), w)),
       verify = (\<lambda>w. (Inr \<lparr> vr_status = ''fail'', vr_lint_errors = [], vr_type_errors = [],
                                vr_failing_tests = [''test_a''], vr_summary = ''Found 1 issues'' \<rparr>, w)),
       fs_read = (\<lambda>path w. (Inr \<lparr> fo_success = False, fo_message = ''File not found'',
                                     fo_diff = None, fo_path = None, fo_data = None \<rparr>, w)),
       now = (\<lambda>w. ''2026-01-01T00:00:00'') \<rparr>"


definition failed_observation :: Observation where
  "failed_observation =
     \<lparr> ob_action_type = ''shell_run'', ob_success = False, ob_message = ''Command failed'',
       ob_error_type = Some ''UnknownError'', ob_affected_files = [], ob_diff = None,
       ob_can_retry = True, ob_context_update = [] \<rparr>"

definition start_state :: "(unit \<times> Action list) loop_state" where
  "start_state =
     \<lparr> results = \<lparr> rs_success = True, rs_iterations = 1, rs_steps_executed = 0, rs_steps = [],
                   rs_observations = [], rs_self_corrections = 0 \<rparr>,
       state = empty_session\<lparr> current_plan := Some (plan_of [test_step]) \<rparr>,
       loop_context = [], world = ((), []) \<rparr>"

definition no_fix :: ReflectionResult where
  "no_fix = \<lparr> analysis = ''the file is missing'', fix_plan = plan_of [] \<rparr>"

subsection \<open>A filesystem without links\<close>

text \<open>
  \<open>resolve\<close> where there are no symbolic links: the components of the argument follow
  those of the root, or stand alone when the argument is absolute; empty components and
  \<open>.\<close> are dropped, and \<open>..\<close> steps back (at the root of the filesystem, to itself). A
  NUL character is refused.
\<close>

fun components_acc :: "ustr \<Rightarrow> ustr \<Rightarrow> ustr list" where
  "components_acc acc [] = [rev acc]"
| "components_acc acc (c # cs) =
     (if c = 47 then rev acc # components_acc [] cs else components_acc (c # acc) cs)"

fun normalize :: "ustr list \<Rightarrow> ustr list \<Rightarrow> path" where
  "normalize up [] = rev up"
| "normalize up (c # cs) =
     (if c = [] \<or> c = ustr ''.'' then normalize up cs
      else if c = ustr ''..'' then normalize (tl up) cs
      else normalize (c # up) cs)"

definition lexical_resolve :: "path \<Rightarrow> ustr \<Rightarrow> fs_exc + path" where
  "lexical_resolve base s =
     (if 0 \<in> set s then Inl (FsExc ''ValueError'' (ustr ''embedded null byte''))
      else Inr (normalize (if is_absolute s then [] else rev base) (components_acc [] s)))"

text \<open>
  A system that refuses nothing, names its errors by class and path, and moves single
  files; the diff is left empty.
\<close>

definition plain_os :: os where
  "plain_os =
     \<lparr> resolve = lexical_resolve,
       fault = (\<lambda>a. None),
       error_text = (\<lambda>cls p. ustr cls @ ustr '': '' @ path_str p),
       encode_error_text = (\<lambda>s. ustr ''surrogates not allowed''),
       move = (\<lambda>fs src dst.
                 case node_at fs src of
                   Some (TextFile t) \<Rightarrow>
                     Inr (store (filter (\<lambda>(q, m). q \<noteq> src) fs) dst (TextFile t))
                 | other \<Rightarrow> Inl (FsExc ''OSError'' (path_str src))),
       unified_diff = (\<lambda>old_lines new_lines fromfile tofile. []),
       time = 0 \<rparr>"

definition tool :: FileSystemTool where
  "tool = \<lparr> repo_root = [ustr ''repo''], max_file_size = 1048576 \<rparr>"

text \<open>The repository with one file, \<open>notes.txt\<close>, of two lines that end in \<open>\r\n\<close>.\<close>

definition crlf_text :: ustr where
  "crlf_text = ustr ''one'' @ [13, 10] @ ustr ''two'' @ [13, 10]"

definition crlf_repo :: files where
  "crlf_repo = [([ustr ''repo''], Dir), ([ustr ''repo'', ustr ''notes.txt''], TextFile crlf_text)]"

text \<open>The repository with one file, \<open>notes.txt\<close>, of the lines \<open>x\<close> and \<open>y\<close>.\<close>

definition xy_repo :: files where
  "xy_repo =
     [([ustr ''repo''], Dir),
      ([ustr ''repo'', ustr ''notes.txt''], TextFile (ustr ''x'' @ [10] @ ustr ''y'' @ [10]))]"

definition empty_repo :: files where
  "empty_repo = [([ustr ''repo''], Dir)]"

text \<open>The repository with one file, \<open>notes.txt\<close>, of the line \<open>ab ab\<close>.\<close>

definition abab_text :: ustr where
  "abab_text = ustr ''ab ab'' @ [10]"

definition abab_repo :: files where
  "abab_repo = [([ustr ''repo''], Dir), ([ustr ''repo'', ustr ''notes.txt''], TextFile abab_text)]"

definition notes_txt :: path where
  "notes_txt = [ustr ''repo'', ustr ''notes.txt'']"

section \<open>Proofs\<close>

lemma str_in_sublist: "str_in needle hay = sublist needle hay"
  by (induction hay) (auto simp: sublist_Cons_right)

subsection \<open>The observation classifier\<close>

lemma observe_raises:
  "\<not> path_arg_ok a \<Longrightarrow>
   observe a r = Inl (Exc ''ValidationError'' ''1 validation error for Observation'')"
  by (cases "dict_get (args a) ''path''") (auto simp: observe_def path_arg_ok_def Let_def)

text \<open>
  Claim C9, as stated, for every action: a write whose \<open>path\<close> is the number 5 fails in
  the executor, and for that action and result \<open>observe\<close> raises \<open>ValidationError\<close> and
  assigns no \<open>error_type\<close>.
\<close>

theorem observe_rejects_numbered_path:
  "\<not> er_success numbered_write_result
   \<and> observe numbered_write numbered_write_result
       = Inl (Exc ''ValidationError'' ''1 validation error for Observation'')"
  by (simp add: observe_def numbered_write_def numbered_write_result_def dict_get_def Let_def)

text \<open>
  Claim C9, amended. For every action whose type is outside the \<open>fs_\<close> family or whose
  \<open>path\<close> argument is missing, falsy or a \<open>str\<close>, and every failed execution result,
  \<open>observe\<close> returns an observation; its \<open>error_type\<close> comes from scanning the lower-cased
  failure message for the markers in the fixed order "import", "syntax", "not found" or
  "does not exist", "permission", with \<open>UnknownError\<close> when none occurs; and \<open>can_retry\<close>
  is false exactly when the assigned category is \<open>PermissionError\<close>.
\<close>

theorem observe_classification:
  assumes "\<not> er_success r" and "path_arg_ok a"
  shows "\<exists>obs. observe a r = Inr obs
       \<and> ob_error_type obs =
           Some (if sublist ''import'' (lower (er_message r)) then ''ImportError''
                 else if sublist ''syntax'' (lower (er_message r)) then ''SyntaxError''
                 else if sublist ''not found'' (lower (er_message r))
                         \<or> sublist ''does not exist'' (lower (er_message r))
                      then ''FileNotFoundError''
                 else if sublist ''permission'' (lower (er_message r)) then ''PermissionError''
                 else ''UnknownError'')
       \<and> (ob_can_retry obs \<longleftrightarrow> ob_error_type obs \<noteq> Some ''PermissionError'')"
proof (cases "prefix ''fs_'' (type_value (type a)) \<and> truthy (dict_get (args a) ''path'')")
  case True
  then obtain s where "dict_get (args a) ''path'' = PStr s"
    using assms(2) by (auto simp: path_arg_ok_def)
  with True assms(1) show ?thesis
    by (simp add: observe_def Let_def str_in_sublist)
next
  case False
  with assms(1) show ?thesis
    by (auto simp: observe_def Let_def str_in_sublist)
qed

theorem observe_classification_witness:
  "\<not> er_success denied_result \<and> path_arg_ok denied_action
   \<and> (\<exists>obs. observe denied_action denied_result = Inr obs
          \<and> ob_error_type obs = Some ''PermissionError'' \<and> \<not> ob_can_retry obs)"
proof -
  have r: "\<not> er_success denied_result"
    by (simp add: denied_result_def)
  have a: "path_arg_ok denied_action"
    by (simp add: path_arg_ok_def denied_action_def)
  show ?thesis
    using r a observe_classification [OF r a]
    by (auto simp: denied_result_def lower_def lower_char_def sublist_code)
qed

subsection \<open>Plan assessment\<close>















subsection \<open>The shell adapter\<close>

lemma match_len_pos_iff:
  assumes "[] \<notin> set T"
  shows "0 < match_len T s \<longleftrightarrow> (\<exists>w \<in> set T. prefix w s)"
proof (cases "find (\<lambda>w. prefix w s) T")
  case None
  then have "\<not> (\<exists>w \<in> set T. prefix w s)"
    by (simp add: find_None_iff)
  with None show ?thesis by (simp add: match_len_def)
next
  case (Some w)
  then have "w \<in> set T" "prefix w s"
    by (auto simp: find_Some_iff)
  with assms Some show ?thesis
    by (auto simp: match_len_def)
qed

lemma whitespace_no_empty: "[] \<notin> set whitespace"
  by (simp add: whitespace_def)

lemma lstrip_table_drop: "\<exists>n. lstrip_table T s = drop n s"
proof (induction T s rule: lstrip_table.induct)
  case (1 table s)
  show ?case
  proof (cases "s \<noteq> [] \<and> 0 < match_len table s")
    case True
    with 1 obtain n where
      n: "lstrip_table table (drop (match_len table s) s) = drop n (drop (match_len table s) s)"
      by blast
    have "lstrip_table table s = lstrip_table table (drop (match_len table s) s)"
      using True by (subst lstrip_table.simps) simp
    also have "\<dots> = drop (n + match_len table s) s"
      using n by simp
    finally show ?thesis by blast
  next
    case False
    then have "lstrip_table table s = drop 0 s"
      by (subst lstrip_table.simps) auto
    then show ?thesis by blast
  qed
qed

lemma lstrip_table_head: "lstrip_table T s = [] \<or> match_len T (lstrip_table T s) = 0"
proof (induction T s rule: lstrip_table.induct)
  case (1 table s)
  show ?case
  proof (cases "s \<noteq> [] \<and> 0 < match_len table s")
    case True
    have "lstrip_table table s = lstrip_table table (drop (match_len table s) s)"
      using True by (subst lstrip_table.simps) simp
    with 1 True show ?thesis by simp
  next
    case False
    then have "lstrip_table table s = s"
      by (subst lstrip_table.simps) auto
    with False show ?thesis by auto
  qed
qed


lemma rstrip_take: "\<exists>n. rstrip s = take n s"
proof -
  obtain n where "lstrip_table (map rev whitespace) (rev s) = drop n (rev s)"
    using lstrip_table_drop by blast
  then have "rstrip s = take (length s - n) s"
    by (simp add: rstrip_def rev_drop)
  then show ?thesis by blast
qed

lemma strip_head: "strip s = [] \<or> match_len whitespace (strip s) = 0"
proof -
  obtain n where n: "strip s = take n (lstrip s)"
    using rstrip_take [of "lstrip s"] by (auto simp: strip_def)
  show ?thesis
  proof (rule ccontr)
    assume a: "\<not> ?thesis"
    then have "0 < match_len whitespace (strip s)" by simp
    then obtain w where w: "w \<in> set whitespace" "prefix w (take n (lstrip s))"
      using match_len_pos_iff [OF whitespace_no_empty, of "strip s"] n by auto
    have "prefix (take n (lstrip s)) (lstrip s)"
      by (rule take_is_prefix)
    with w(2) have "prefix w (lstrip s)"
      by (rule prefix_order.trans)
    with w(1) have "0 < match_len whitespace (lstrip s)"
      using match_len_pos_iff [OF whitespace_no_empty, of "lstrip s"] by blast
    moreover have "lstrip s \<noteq> []" using a n by auto
    ultimately show False
      using lstrip_table_head [of whitespace s] by (simp add: lstrip_def)
  qed
qed

lemma split_ws_acc: "acc \<noteq> [] \<Longrightarrow> split_ws acc s \<noteq> []"
proof (induction acc s rule: split_ws.induct)
  case (1 acc s)
  then show ?case
    by (subst split_ws.simps) auto
qed

lemma split_strip_nonempty:
  assumes "strip s \<noteq> []"
  shows "split (strip s) \<noteq> []"
proof -
  have "match_len whitespace (strip s) = 0"
    using assms strip_head by blast
  with assms have "split_ws [] (strip s) = split_ws [hd (strip s)] (tl (strip s))"
    by (subst split_ws.simps) simp
  then show ?thesis
    using split_ws_acc [of "[hd (strip s)]" "tl (strip s)"] by (simp add: split_def)
qed

lemma base_command_total: "\<exists>b. base_command command = Inr b"
proof (cases "strip command = []")
  case True
  then show ?thesis by (simp add: base_command_def)
next
  case False
  then obtain w ws where "split (strip command) = w # ws"
    using split_strip_nonempty [of command] by (cases "split (strip command)") auto
  with False show ?thesis by (simp add: base_command_def)
qed

text \<open>
  Claim C3. The first whitespace-delimited token of a command always has a basename, and
  when that basename is not in the allowlist \<open>run\<close> starts no subprocess and returns a
  failed result with the rejection message, empty stdout and stderr and exit code -1,
  whatever the dangerous-pattern scan would say.
\<close>

theorem run_rejects_unlisted:
  "(\<exists>b. base_command command = Inr b)
   \<and> (\<forall>b. base_command command = Inr b \<longrightarrow> b \<notin> set (allowlist self) \<longrightarrow>
         run re_search subprocess_run self command timeout =
           Inr (\<lparr> sr_success = False, sr_command = command, sr_stdout = [], sr_stderr = [],
                  sr_exit_code = - 1,
                  sr_message = ''Command rejected: Command '' @ [CHR 0x27] @ b @ [CHR 0x27]
                                 @ '' not in allowlist'' \<rparr>, []))"
  using base_command_total [of command]
  by (auto simp: run_def validate_command_def)

theorem run_rejects_unlisted_witness:
  "base_command ''/bin/rm -rf /'' = Inr ''rm''
   \<and> ''rm'' \<notin> set (allowlist sleep_tool)
   \<and> run always_matches times_out sleep_tool ''/bin/rm -rf /'' None =
       Inr (\<lparr> sr_success = False, sr_command = ''/bin/rm -rf /'', sr_stdout = [],
              sr_stderr = [], sr_exit_code = - 1,
              sr_message = ''Command rejected: Command '' @ [CHR 0x27] @ ''rm'' @ [CHR 0x27]
                             @ '' not in allowlist'' \<rparr>, [])
   \<and> run never_matches times_out sleep_tool ''/bin/rm -rf /'' None =
       run always_matches times_out sleep_tool ''/bin/rm -rf /'' None"
proof -
  have b: "base_command ''/bin/rm -rf /'' = Inr ''rm''"
    by code_simp
  have n: "''rm'' \<notin> set (allowlist sleep_tool)"
    by (simp add: sleep_tool_def)
  show ?thesis
    using b n
      run_rejects_unlisted [of "''/bin/rm -rf /''" sleep_tool always_matches times_out None]
      run_rejects_unlisted [of "''/bin/rm -rf /''" sleep_tool never_matches times_out None]
    by simp
qed

text \<open>
  Claim C2. The timeout \<open>run\<close> passes to the subprocess would be at most \<open>max_timeout\<close>.
  The code passes a caller's timeout on as it is: with \<open>max_timeout = 120\<close> and a caller's
  timeout of 1000 the subprocess is started with 1000. (The expiry itself is returned as a
  failed result with its own message, as the claim says.)
\<close>

theorem run_timeout_not_bounded:
  "max_timeout sleep_tool = 120
   \<and> run never_matches times_out sleep_tool ''sleep 1000'' (Some 1000) =
       Inr (\<lparr> sr_success = False, sr_command = ''sleep 1000'', sr_stdout = [],
              sr_stderr = [], sr_exit_code = - 1,
              sr_message = ''Command timed out after 1000s'' \<rparr>,
            [(''sleep 1000'', 1000)])"
  by code_simp

subsection \<open>The orchestration loop\<close>

lemma observe_Inr_fields:
  assumes "observe a r = Inr obs"
  shows "ob_success obs = er_success r"
    and "ob_message obs = er_message r"
    and "ob_diff obs = (if er_success r then Some (er_diff r) else None)"
  using assms by (auto simp: observe_def Let_def split: option.splits)


lemma logged_simps [simp]:
  "retrieve (logged env) query (w, trace)
     = (case retrieve env query w of (r, w') \<Rightarrow> (r, (w', trace)))"
  "llm_plan (logged env) msgs ctx (w, trace)
     = (case llm_plan env msgs ctx w of (r, w') \<Rightarrow> (r, (w', trace)))"
  "llm_reflect (logged env) plan report ds (w, trace)
     = (case llm_reflect env plan report ds w of (r, w') \<Rightarrow> (r, (w', trace)))"
  "execute (logged env) action (w, trace)
     = (case execute env action w of (r, w') \<Rightarrow> (r, (w', trace @ [action])))"
  "verify (logged env) (w, trace) = (case verify env w of (r, w') \<Rightarrow> (r, (w', trace)))"
  "fs_read (logged env) path (w, trace)
     = (case fs_read env path w of (r, w') \<Rightarrow> (r, (w', trace)))"
  "now (logged env) (w, trace) = now env w"
  by (simp_all add: logged_def)

lemma handle_failure_empty_plan:
  fixes env :: "'w env"
  assumes "ob_can_retry obs"
    and "world st = (w0, trace)"
    and "llm_reflect env (current_plan (state st)) (''fail'', ob_message obs) (diffs (state st)) w0
           = (Inr reflection, w1)"
    and "steps (fix_plan reflection) = []"
  shows "handle_failure (logged env) obs st = Continue (st\<lparr> world := (w1, trace) \<rparr>)"
  using assms by (simp add: handle_failure_def)


text \<open>
  Claim C10. When an action fails, its observation is retryable and the reflector returns
  a fix plan without steps, the failure handling falls through without giving anything to
  the executor: the loop goes on to the next action from the state in which the failed
  step is recorded, with the success flag and \<open>self_corrections\<close> as they were. The trace
  of the executor holds the failed action and nothing after it.
\<close>

theorem empty_fix_plan_tolerated:
  fixes env :: "'w env"
  assumes "world st = (w0, trace)"
    and "execute env a w0 = (Inr r, w1)"
    and "\<not> er_success r"
    and "observe a r = Inr obs"
    and "ob_can_retry obs"
    and "llm_reflect env (current_plan (state st)) (''fail'', er_message r) (diffs (state st)) w1
           = (Inr reflection, w2)"
    and "steps (fix_plan reflection) = []"
  shows "handle_failure (logged env) obs (record_step (logged env) a obs (w1, trace @ [a]) st)
           = Continue ((record_step (logged env) a obs (w1, trace @ [a]) st)
                         \<lparr> world := (w2, trace @ [a]) \<rparr>)
       \<and> exec_actions (logged env) (a # rest) st
           = exec_actions (logged env) rest
               ((record_step (logged env) a obs (w1, trace @ [a]) st)
                  \<lparr> world := (w2, trace @ [a]) \<rparr>)
       \<and> rs_success (results ((record_step (logged env) a obs (w1, trace @ [a]) st)
                                 \<lparr> world := (w2, trace @ [a]) \<rparr>))
           = rs_success (results st)
       \<and> rs_self_corrections (results ((record_step (logged env) a obs (w1, trace @ [a]) st)
                                          \<lparr> world := (w2, trace @ [a]) \<rparr>))
           = rs_self_corrections (results st)"
proof -
  let ?st1 = "record_step (logged env) a obs (w1, trace @ [a]) st"
  note of = observe_Inr_fields [OF assms(4)]
  have cp: "current_plan (state ?st1) = current_plan (state st)"
    "diffs (state ?st1) = diffs (state st)" "world ?st1 = (w1, trace @ [a])"
    by (simp_all add: record_step_def Let_def add_action_result_def)
  have hf: "handle_failure (logged env) obs ?st1 = Continue (?st1\<lparr> world := (w2, trace @ [a]) \<rparr>)"
    using assms(5,6,7) cp of(2)
    by (intro handle_failure_empty_plan [where ?w0.0 = w1 and reflection = reflection]) simp_all
  have ex: "exec_actions (logged env) (a # rest) st
          = exec_actions (logged env) rest (?st1\<lparr> world := (w2, trace @ [a]) \<rparr>)"
  proof -
    have "exec_actions (logged env) (a # rest) st
          = (case handle_failure (logged env) obs ?st1 of
               Continue st2 \<Rightarrow> exec_actions (logged env) rest st2
             | Return st2 \<Rightarrow> Return st2
             | Raise e st2 \<Rightarrow> Raise e st2)"
      using assms(1,2,3,4) of
      by (simp add: record_step_def Let_def split: flow.splits)
    then show ?thesis by (simp add: hf)
  qed
  show ?thesis
    using hf ex by (simp add: record_step_def Let_def)
qed




lemma observe_test_step: "observe test_step failed_result = Inr failed_observation"
  by (simp add: observe_def test_step_def failed_result_def failed_observation_def Let_def
        lower_def lower_char_def)

theorem empty_fix_plan_tolerated_witness:
  "world start_state = ((), [])
   \<and> execute (scripted False []) test_step () = (Inr failed_result, ())
   \<and> \<not> er_success failed_result
   \<and> observe test_step failed_result = Inr failed_observation
   \<and> ob_can_retry failed_observation
   \<and> llm_reflect (scripted False []) (current_plan (state start_state))
         (''fail'', er_message failed_result) (diffs (state start_state)) () = (Inr no_fix, ())
   \<and> steps (fix_plan no_fix) = []
   \<and> exec_actions (logged (scripted False [])) [test_step] start_state
       = Continue ((record_step (logged (scripted False [])) test_step failed_observation
                      ((), [test_step]) start_state)\<lparr> world := ((), [test_step]) \<rparr>)
   \<and> rs_success (results ((record_step (logged (scripted False [])) test_step
                               failed_observation ((), [test_step]) start_state)
                              \<lparr> world := ((), [test_step]) \<rparr>))
   \<and> rs_self_corrections (results ((record_step (logged (scripted False [])) test_step
                               failed_observation ((), [test_step]) start_state)
                              \<lparr> world := ((), [test_step]) \<rparr>)) = 0"
proof -
  have 1: "world start_state = ((), [])"
    by (simp add: start_state_def)
  have 2: "execute (scripted False []) test_step () = (Inr failed_result, ())"
    by (simp add: scripted_def test_step_def)
  have 3: "\<not> er_success failed_result"
    by (simp add: failed_result_def)
  have 5: "ob_can_retry failed_observation"
    by (simp add: failed_observation_def)
  have 6: "llm_reflect (scripted False []) (current_plan (state start_state))
         (''fail'', er_message failed_result) (diffs (state start_state)) () = (Inr no_fix, ())"
    by (simp add: scripted_def no_fix_def)
  have 7: "steps (fix_plan no_fix) = []"
    by (simp add: no_fix_def plan_of_def)
  have s: "rs_success (results start_state)" "rs_self_corrections (results start_state) = 0"
    by (simp_all add: start_state_def)
  show ?thesis
    using empty_fix_plan_tolerated [OF 1 2 3 observe_test_step 5 6 7, of "[]"]
      1 2 3 observe_test_step 5 6 7 s
    by simp
qed




subsection \<open>The filesystem adapter\<close>

lemma rejected_ops:
  assumes "validate_path os self path = Inl e"
  shows "read os self path fs = (failed_with ''Error reading '' path e, fs)"
    and "write_file os self path content fs = (failed_with ''Error writing '' path e, fs)"
    and "edit os self path old_text new_text fs = (failed_with ''Error editing '' path e, fs)"
    and "insert_lines os self path line_number content operation fs
           = (failed_with ''Error inserting in '' path e, fs)"
    and "delete os self path fs = (failed_with ''Error deleting '' path e, fs)"
    and "list_directory os self path fs = (failed_with ''Error listing '' path e, fs)"
  using assms
  by (simp_all add: read_def write_file_def edit_def insert_lines_def delete_def
        list_directory_def io_catch_def io_bind_def validated_def)

text \<open>
  Claim C1. For a path argument whose resolved form does not lie under the repository
  root, or which is absolute, \<open>_validate_path\<close> raises, and each of \<open>read\<close>, \<open>write\<close>,
  \<open>edit\<close>, \<open>insert_lines\<close>, \<open>delete\<close> and \<open>list_directory\<close> returns the failed result made
  from that exception (\<open>success = False\<close>, no path, no data, no diff) and leaves the files as
  they were. The result is the same whatever the files are, so nothing of them is read.
  When \<open>resolve\<close> returns, the exception is the \<open>ValueError\<close> of the jail: "is outside
  repository root" for an escaping path, "Absolute paths not allowed" for an absolute path
  under the root. When \<open>resolve\<close> itself raises on an absolute argument, the failed result
  carries its message.
\<close>

theorem path_jail:
  assumes "(\<exists>full. resolve os (repo_root self) path = Inr full
                  \<and> \<not> prefix (repo_root self) full)
           \<or> is_absolute path"
  shows "\<exists>e. validate_path os self path = Inl e
           \<and> (\<forall>full. resolve os (repo_root self) path = Inr full \<longrightarrow>
                 e = FsExc ''ValueError''
                       (if \<not> prefix (repo_root self) full
                        then ustr ''Path '' @ path @ ustr '' is outside repository root''
                        else ustr ''Absolute paths not allowed: '' @ path))
           \<and> (\<forall>fs.
                 read os self path fs = (failed_with ''Error reading '' path e, fs)
               \<and> write_file os self path content fs
                   = (failed_with ''Error writing '' path e, fs)
               \<and> edit os self path old_text new_text fs
                   = (failed_with ''Error editing '' path e, fs)
               \<and> insert_lines os self path line_number text operation fs
                   = (failed_with ''Error inserting in '' path e, fs)
               \<and> delete os self path fs = (failed_with ''Error deleting '' path e, fs)
               \<and> list_directory os self path fs
                   = (failed_with ''Error listing '' path e, fs))"
proof -
  have "\<exists>e. validate_path os self path = Inl e
           \<and> (\<forall>full. resolve os (repo_root self) path = Inr full \<longrightarrow>
                 e = FsExc ''ValueError''
                       (if \<not> prefix (repo_root self) full
                        then ustr ''Path '' @ path @ ustr '' is outside repository root''
                        else ustr ''Absolute paths not allowed: '' @ path))"
    using assms by (cases "resolve os (repo_root self) path") (auto simp: validate_path_def)
  then obtain e where e: "validate_path os self path = Inl e"
    and msg: "\<forall>full. resolve os (repo_root self) path = Inr full \<longrightarrow>
                 e = FsExc ''ValueError''
                       (if \<not> prefix (repo_root self) full
                        then ustr ''Path '' @ path @ ustr '' is outside repository root''
                        else ustr ''Absolute paths not allowed: '' @ path)"
    by blast
  show ?thesis
    using msg rejected_ops [OF e] by (intro exI [of _ e]) (simp add: e)
qed

theorem path_jail_witness:
  "read plain_os tool (ustr ''../x'') xy_repo
     = (failed_with ''Error reading '' (ustr ''../x'')
          (FsExc ''ValueError'' (ustr ''Path ../x is outside repository root'')), xy_repo)
   \<and> write_file plain_os tool (ustr ''../x'') (ustr ''new'') xy_repo
     = (failed_with ''Error writing '' (ustr ''../x'')
          (FsExc ''ValueError'' (ustr ''Path ../x is outside repository root'')), xy_repo)
   \<and> delete plain_os tool (ustr ''../x'') xy_repo
     = (failed_with ''Error deleting '' (ustr ''../x'')
          (FsExc ''ValueError'' (ustr ''Path ../x is outside repository root'')), xy_repo)"
proof -
  have r: "resolve plain_os (repo_root tool) (ustr ''../x'') = Inr [ustr ''x'']"
    by (simp add: plain_os_def tool_def lexical_resolve_def ustr_def is_absolute_def)
  have np: "\<not> prefix (repo_root tool) [ustr ''x'']"
    by (simp add: tool_def ustr_def)
  have u: "ustr ''Path '' @ ustr ''../x'' @ ustr '' is outside repository root''
             = ustr ''Path ../x is outside repository root''"
    by (simp add: ustr_def)
  show ?thesis
    using path_jail [of plain_os tool "ustr ''../x''" "ustr ''new''" "[]" "[]" 1 "[]" "[]"] r np u
    by auto
qed

lemma map_of_filter_neq:
  "map_of (filter (\<lambda>(q, m). q \<noteq> p) fs) q = (if q = p then None else map_of fs q)"
  by (induction fs) auto

lemma entry_store:
  "entry (store fs p n) q = (if q = [] then Some Dir else if q = p then Some n else entry fs q)"
  by (simp add: entry_def store_def map_of_filter_neq)

lemma walk_to_store_below:
  "length made + length cs < length p \<Longrightarrow> walk_to (store fs p n) made cs = walk_to fs made cs"
proof (induction cs arbitrary: made)
  case Nil
  show ?case by simp
next
  case (Cons c cs)
  have ne: "made @ [c] \<noteq> p" using Cons.prems by auto
  have "entry (store fs p n) (made @ [c]) = entry fs (made @ [c])"
    using ne by (simp add: entry_store)
  moreover have "walk_to (store fs p n) (made @ [c]) cs = walk_to fs (made @ [c]) cs"
    using Cons.prems by (intro Cons.IH) simp
  ultimately show ?case by (simp split: option.splits node.splits)
qed

lemma walk_to_store_parent:
  "p \<noteq> [] \<Longrightarrow> walk_to (store fs p n) [] (butlast p) = walk_to fs [] (butlast p)"
  by (rule walk_to_store_below) (simp add: less_eq_Suc_le [symmetric] length_greater_0_conv)

lemma node_at_store_same:
  "p \<noteq> [] \<Longrightarrow> walk_to fs [] (butlast p) = Reached \<Longrightarrow> node_at (store fs p n) p = Some n"
  by (simp add: node_at_def walk_to_store_parent entry_store)

lemma node_at_file:
  assumes "node_at fs p = Some n" "n \<noteq> Dir"
  shows "p \<noteq> []" and "walk_to fs [] (butlast p) = Reached" and "entry fs p = Some n"
proof -
  show w: "walk_to fs [] (butlast p) = Reached"
    using assms(1) by (cases "walk_to fs [] (butlast p)") (simp_all add: node_at_def)
  show e: "entry fs p = Some n"
    using assms(1) w by (simp add: node_at_def)
  show "p \<noteq> []"
    using e assms(2) by (auto simp: entry_def)
qed

lemma universal_newlines_id: "13 \<notin> set t \<Longrightarrow> universal_newlines t = t"
  by (induction t rule: universal_newlines.induct) auto

lemma path_exists_ok:
  "fault os (Exists p) = None \<Longrightarrow> path_exists os p fs = (Inr (node_at fs p \<noteq> None), fs)"
  by (simp add: path_exists_def)

lemma read_text_ok:
  "fault os (ReadText p) = None \<Longrightarrow> node_at fs p = Some (TextFile t) \<Longrightarrow> encodable t
   \<Longrightarrow> read_text os p fs = (Inr (universal_newlines t), fs)"
  by (simp add: read_text_def)

lemma write_text_ok:
  "fault os (WriteText p) = None \<Longrightarrow> walk_to fs [] (butlast p) = Reached
   \<Longrightarrow> entry fs p \<noteq> Some Dir \<Longrightarrow> encodable d
   \<Longrightarrow> write_text os p d fs = (Inr (), store fs p (TextFile d))"
  by (simp add: write_text_def)

lemma replace_first_spec:
  "sublist old t \<Longrightarrow>
   \<exists>pre post. t = pre @ old @ post \<and> replace_first old new t = pre @ new @ post
     \<and> (\<forall>pre' post'. t = pre' @ old @ post' \<longrightarrow> length pre \<le> length pre')"
proof (induction t)
  case Nil
  then show ?case by simp
next
  case (Cons c cs)
  show ?case
  proof (cases "prefix old (c # cs)")
    case True
    then obtain post where post: "c # cs = old @ post" by (auto simp: prefix_def)
    have d: "drop (length old) (c # cs) = post"
      using post by simp
    have "replace_first old new (c # cs) = new @ drop (length old) (c # cs)"
      using True by simp
    hence "replace_first old new (c # cs) = [] @ new @ post"
      by (simp only: d append_Nil)
    moreover have "c # cs = [] @ old @ post" using post by simp
    ultimately show ?thesis by (metis le0 list.size(3))
  next
    case False
    hence "sublist old cs" using Cons.prems by (simp add: sublist_Cons_right)
    then obtain pre post where ih: "cs = pre @ old @ post"
      "replace_first old new cs = pre @ new @ post"
      "\<forall>pre' post'. cs = pre' @ old @ post' \<longrightarrow> length pre \<le> length pre'"
      using Cons.IH by blast
    have a: "c # cs = (c # pre) @ old @ post" using ih(1) by simp
    have b: "replace_first old new (c # cs) = (c # pre) @ new @ post"
      using False ih(2) by simp
    have c: "\<forall>pre' post'. c # cs = pre' @ old @ post' \<longrightarrow> length (c # pre) \<le> length pre'"
    proof (intro allI impI)
      fix pre' post' assume eq: "c # cs = pre' @ old @ post'"
      show "length (c # pre) \<le> length pre'"
      proof (cases pre')
        case Nil
        hence "prefix old (c # cs)" using eq by (simp add: prefix_def)
        thus ?thesis using False by simp
      next
        case (Cons d pre'')
        hence "cs = pre'' @ old @ post'" using eq by simp
        hence "length pre \<le> length pre''" using ih(3) by blast
        thus ?thesis using Cons by simp
      qed
    qed
    show ?thesis using a b c by blast
  qed
qed

lemma encodable_append: "encodable (a @ b) = (encodable a \<and> encodable b)"
  by (auto simp: encodable_def list_ex_iff)

text \<open>
  Claim C8, as amended. Let \<open>path\<close> pass the jail and name a file that holds a text
  without carriage returns, let \<open>new_text\<close> be encodable, and let the system refuse
  none of the three calls. Then \<open>edit\<close> returns the text-not-found result, and changes
  nothing, exactly when \<open>old_text\<close> is not a sublist of the content. When it is, the
  content is \<open>before @ old_text @ after\<close> with the shortest possible \<open>before\<close> (the
  first occurrence), \<open>edit\<close> succeeds, and the file holds \<open>before @ new_text @ after\<close>:
  what follows the first occurrence, later occurrences included, is as it was.
\<close>

theorem edit_first_occurrence:
  assumes "validate_path os self path = Inr full_path"
    and "node_at fs full_path = Some (TextFile content)"
    and "encodable content" and "13 \<notin> set content"
    and "encodable new_text"
    and "fault os (Exists full_path) = None"
    and "fault os (ReadText full_path) = None"
    and "fault os (WriteText full_path) = None"
  shows "(\<not> sublist old_text content \<longrightarrow>
            edit os self path old_text new_text fs
              = (failed_at (ustr ''Text not found in '' @ path @ ustr ''. Cannot apply edit.'')
                   full_path, fs))
       \<and> (sublist old_text content \<longrightarrow>
            (\<exists>before after.
               content = before @ old_text @ after
             \<and> (\<forall>before' after'. content = before' @ old_text @ after'
                    \<longrightarrow> length before \<le> length before')
             \<and> replace_first old_text new_text content = before @ new_text @ after
             \<and> edit os self path old_text new_text fs
                 = (\<lparr> fo_success = True, fo_message = ustr ''Edited '' @ path,
                      fo_diff = Some (generate_diff os content (before @ new_text @ after) path),
                      fo_path = Some (path_str full_path), fo_data = None \<rparr>,
                    store fs full_path (TextFile (before @ new_text @ after)))
             \<and> node_at (store fs full_path (TextFile (before @ new_text @ after))) full_path
                 = Some (TextFile (before @ new_text @ after))))"
proof -
  note nf = node_at_file [OF assms(2)]
  have ex: "path_exists os full_path fs = (Inr True, fs)"
    using assms(2,6) by (simp add: path_exists_ok)
  have rd: "read_text os full_path fs = (Inr content, fs)"
    using assms(2,3,4,7) by (simp add: read_text_ok universal_newlines_id)
  have absent: "\<not> sublist old_text content \<Longrightarrow>
            edit os self path old_text new_text fs
              = (failed_at (ustr ''Text not found in '' @ path @ ustr ''. Cannot apply edit.'')
                   full_path, fs)"
    using assms(1) ex rd
    by (simp add: edit_def io_catch_def io_bind_def validated_def io_return_def)
  have present: "\<exists>before after.
               content = before @ old_text @ after
             \<and> (\<forall>before' after'. content = before' @ old_text @ after'
                    \<longrightarrow> length before \<le> length before')
             \<and> replace_first old_text new_text content = before @ new_text @ after
             \<and> edit os self path old_text new_text fs
                 = (\<lparr> fo_success = True, fo_message = ustr ''Edited '' @ path,
                      fo_diff = Some (generate_diff os content (before @ new_text @ after) path),
                      fo_path = Some (path_str full_path), fo_data = None \<rparr>,
                    store fs full_path (TextFile (before @ new_text @ after)))
             \<and> node_at (store fs full_path (TextFile (before @ new_text @ after))) full_path
                 = Some (TextFile (before @ new_text @ after))"
    if sub: "sublist old_text content"
  proof -
    obtain before after where s: "content = before @ old_text @ after"
      "replace_first old_text new_text content = before @ new_text @ after"
      "\<forall>before' after'. content = before' @ old_text @ after' \<longrightarrow> length before \<le> length before'"
      using replace_first_spec [OF sub] by blast
    have enc: "encodable (before @ new_text @ after)"
      using assms(3,5) s(1) by (simp add: encodable_append)
    have wr: "write_text os full_path (before @ new_text @ after) fs
                = (Inr (), store fs full_path (TextFile (before @ new_text @ after)))"
      using assms(8) nf enc by (intro write_text_ok) simp_all
    have "edit os self path old_text new_text fs
                 = (\<lparr> fo_success = True, fo_message = ustr ''Edited '' @ path,
                      fo_diff = Some (generate_diff os content (before @ new_text @ after) path),
                      fo_path = Some (path_str full_path), fo_data = None \<rparr>,
                    store fs full_path (TextFile (before @ new_text @ after)))"
      using assms(1) ex rd sub wr s(2)
      by (simp add: edit_def io_catch_def io_bind_def validated_def io_return_def Let_def)
    moreover have "node_at (store fs full_path (TextFile (before @ new_text @ after))) full_path
                 = Some (TextFile (before @ new_text @ after))"
      using nf by (simp add: node_at_store_same)
    ultimately show ?thesis using s by blast
  qed
  show ?thesis using absent present by blast
qed

lemma validate_notes: "validate_path plain_os tool (ustr ''notes.txt'') = Inr notes_txt"
  by (simp add: validate_path_def plain_os_def tool_def lexical_resolve_def ustr_def
        is_absolute_def notes_txt_def)

lemma plain_faults: "fault plain_os a = None"
  by (simp add: plain_os_def)

lemma node_abab: "node_at abab_repo notes_txt = Some (TextFile abab_text)"
  by (simp add: node_at_def abab_repo_def notes_txt_def entry_def ustr_def)

lemma node_crlf: "node_at crlf_repo notes_txt = Some (TextFile crlf_text)"
  by (simp add: node_at_def crlf_repo_def notes_txt_def entry_def ustr_def)

lemma walk_crlf: "walk_to crlf_repo [] (butlast notes_txt) = Reached"
  by (simp add: crlf_repo_def notes_txt_def entry_def ustr_def)

lemma entry_crlf: "entry crlf_repo notes_txt = Some (TextFile crlf_text)"
  by (simp add: crlf_repo_def notes_txt_def entry_def ustr_def)

lemma encodable_crlf: "encodable crlf_text"
  by (simp add: crlf_text_def encodable_def surrogate_def ustr_def)

lemma newlines_crlf: "universal_newlines crlf_text = ustr ''one'' @ [10] @ ustr ''two'' @ [10]"
  by (simp add: crlf_text_def ustr_def)

text \<open>
  As stated, C8 fails on a file whose lines end in \<open>\\r\\n\<close>: \<open>read_text\<close> hands
  \<open>edit\<close> the text with every \<open>\\r\\n\<close> turned into \<open>\\n\<close>. So \<open>\\r\\n\<close>, which occurs
  in the content of the file, is reported as not found; and an edit of the word \<open>one\<close>
  also rewrites both line ends, which are no occurrence of it.
\<close>

theorem edit_misses_crlf:
  "node_at crlf_repo notes_txt = Some (TextFile crlf_text)
   \<and> sublist [13, 10] crlf_text
   \<and> edit plain_os tool (ustr ''notes.txt'') [13, 10] [10] crlf_repo
       = (failed_at (ustr ''Text not found in notes.txt. Cannot apply edit.'') notes_txt, crlf_repo)
   \<and> snd (edit plain_os tool (ustr ''notes.txt'') (ustr ''one'') (ustr ''1'') crlf_repo)
       = store crlf_repo notes_txt (TextFile (ustr ''1'' @ [10] @ ustr ''two'' @ [10]))"
proof -
  have ex: "path_exists plain_os notes_txt crlf_repo = (Inr True, crlf_repo)"
    by (simp add: path_exists_ok plain_faults node_crlf)
  have rd: "read_text plain_os notes_txt crlf_repo
              = (Inr (ustr ''one'' @ [10] @ ustr ''two'' @ [10]), crlf_repo)"
    by (simp add: read_text_ok [OF plain_faults node_crlf encodable_crlf] newlines_crlf)
  have s1: "sublist [13, 10] crlf_text"
    by (simp add: crlf_text_def ustr_def sublist_code)
  have s2: "\<not> sublist [13, 10] (ustr ''one'' @ [10] @ ustr ''two'' @ [10])"
    by (simp add: ustr_def sublist_code)
  have s3: "sublist (ustr ''one'') (ustr ''one'' @ [10] @ ustr ''two'' @ [10])"
    by (simp add: ustr_def sublist_code)
  have r3: "replace_first (ustr ''one'') (ustr ''1'') (ustr ''one'' @ [10] @ ustr ''two'' @ [10])
              = ustr ''1'' @ [10] @ ustr ''two'' @ [10]"
    by (simp add: ustr_def)
  have enc: "encodable (ustr ''1'' @ [10] @ ustr ''two'' @ [10])"
    by (simp add: encodable_def surrogate_def ustr_def)
  have wr: "write_text plain_os notes_txt (ustr ''1'' @ [10] @ ustr ''two'' @ [10]) crlf_repo
              = (Inr (), store crlf_repo notes_txt (TextFile (ustr ''1'' @ [10] @ ustr ''two'' @ [10])))"
    by (rule write_text_ok [OF plain_faults walk_crlf _ enc]) (simp add: entry_crlf)
  have m: "ustr ''Text not found in '' @ ustr ''notes.txt'' @ ustr ''. Cannot apply edit.''
             = ustr ''Text not found in notes.txt. Cannot apply edit.''"
    by (simp add: ustr_def)
  have e1: "edit plain_os tool (ustr ''notes.txt'') [13, 10] [10] crlf_repo
       = (failed_at (ustr ''Text not found in notes.txt. Cannot apply edit.'') notes_txt, crlf_repo)"
    using ex rd s2 m
    by (simp add: edit_def io_catch_def io_bind_def validated_def io_return_def validate_notes)
  have e2: "snd (edit plain_os tool (ustr ''notes.txt'') (ustr ''one'') (ustr ''1'') crlf_repo)
       = store crlf_repo notes_txt (TextFile (ustr ''1'' @ [10] @ ustr ''two'' @ [10]))"
    using ex rd s3 r3 wr
    by (simp add: edit_def io_catch_def io_bind_def validated_def io_return_def validate_notes
          Let_def)
  show ?thesis using node_crlf s1 e1 e2 by simp
qed

theorem edit_first_occurrence_witness:
  "fo_success (fst (edit plain_os tool (ustr ''notes.txt'') (ustr ''ab'') (ustr ''c'') abab_repo))
   \<and> snd (edit plain_os tool (ustr ''notes.txt'') (ustr ''ab'') (ustr ''c'') abab_repo)
       = store abab_repo notes_txt (TextFile (ustr ''c ab'' @ [10]))
   \<and> edit plain_os tool (ustr ''notes.txt'') (ustr ''q'') (ustr ''c'') abab_repo
       = (failed_at (ustr ''Text not found in notes.txt. Cannot apply edit.'') notes_txt, abab_repo)"
proof -
  have enc: "encodable abab_text" "encodable (ustr ''c'')"
    by (simp_all add: abab_text_def encodable_def surrogate_def ustr_def)
  have cr: "13 \<notin> set abab_text"
    by (simp add: abab_text_def ustr_def)
  note t = edit_first_occurrence [OF validate_notes node_abab enc(1) cr enc(2)
             plain_faults plain_faults plain_faults]
  have s1: "sublist (ustr ''ab'') abab_text"
    by (simp add: abab_text_def ustr_def sublist_code)
  have s2: "\<not> sublist (ustr ''q'') abab_text"
    by (simp add: abab_text_def ustr_def sublist_code)
  have r: "replace_first (ustr ''ab'') (ustr ''c'') abab_text = ustr ''c ab'' @ [10]"
    by (simp add: abab_text_def ustr_def)
  have m: "ustr ''Text not found in '' @ ustr ''notes.txt'' @ ustr ''. Cannot apply edit.''
             = ustr ''Text not found in notes.txt. Cannot apply edit.''"
    by (simp add: ustr_def)
  obtain before after where
    "replace_first (ustr ''ab'') (ustr ''c'') abab_text = before @ ustr ''c'' @ after"
    "edit plain_os tool (ustr ''notes.txt'') (ustr ''ab'') (ustr ''c'') abab_repo
       = (\<lparr> fo_success = True, fo_message = ustr ''Edited '' @ ustr ''notes.txt'',
            fo_diff = Some (generate_diff plain_os abab_text (before @ ustr ''c'' @ after)
                              (ustr ''notes.txt'')),
            fo_path = Some (path_str notes_txt), fo_data = None \<rparr>,
          store abab_repo notes_txt (TextFile (before @ ustr ''c'' @ after)))"
    using t [of "ustr ''ab''"] s1 by blast
  hence a: "fo_success (fst (edit plain_os tool (ustr ''notes.txt'') (ustr ''ab'') (ustr ''c'') abab_repo))
   \<and> snd (edit plain_os tool (ustr ''notes.txt'') (ustr ''ab'') (ustr ''c'') abab_repo)
       = store abab_repo notes_txt (TextFile (ustr ''c ab'' @ [10]))"
    using r by simp
  have b: "edit plain_os tool (ustr ''notes.txt'') (ustr ''q'') (ustr ''c'') abab_repo
       = (failed_at (ustr ''Text not found in notes.txt. Cannot apply edit.'') notes_txt, abab_repo)"
    using t [of "ustr ''q''"] s2 m by simp
  show ?thesis using a b by simp
qed

end
